theory Spec2Isabelle
  imports Main "HOL-Library.Sublist" "HOL-Library.AList"
begin

section \<open>Values of the host language\<close>

text \<open>
  The server is written in TypeScript and passes untyped values around
  (\<^verbatim>\<open>args: any\<close>, \<^verbatim>\<open>config: unknown\<close>). A value is one of the following; an object is
  the association list of its own enumerable properties in enumeration order (keys are
  distinct in every object the program builds). \<open>JObj\<close> is an object with the standard
  prototype, as an object literal and \<^verbatim>\<open>JSON.parse\<close> make it (for which \<^verbatim>\<open>__proto__\<close> is a
  key like any other); \<open>JObjProto kvs p\<close> is an object with the own properties \<open>kvs\<close>
  whose prototype has been set to the object \<open>p\<close>, which is what an assignment to the
  key \<^verbatim>\<open>__proto__\<close> does. Numbers are carried as integers, with \<^verbatim>\<open>NaN\<close> apart, because
  \<^verbatim>\<open>parseInt\<close> produces it and the schema's number check rejects it; the integers meant
  are those below \<open>10^21\<close> in absolute value, which are printed with all their digits.
\<close>

datatype json =
    JUndefined
  | JNull
  | JBool bool
  | JNum int
  | JNaN
  | JStr string
  | JArr "json list"
  | JObj "(string \<times> json) list"
  | JObjProto "(string \<times> json) list" json

text \<open>Truthiness, as \<^verbatim>\<open>if (x)\<close>, \<^verbatim>\<open>x || y\<close> and \<^verbatim>\<open>!x\<close> test it.\<close>

fun truthy :: "json \<Rightarrow> bool" where
  "truthy JUndefined = False"
| "truthy JNull = False"
| "truthy (JBool b) = b"
| "truthy (JNum n) = (n \<noteq> 0)"
| "truthy JNaN = False"
| "truthy (JStr s) = (s \<noteq> [])"
| "truthy (JArr xs) = True"
| "truthy (JObj kvs) = True"
| "truthy (JObjProto kvs p) = True"

definition js_or :: "json \<Rightarrow> json \<Rightarrow> json" where
  \<comment> \<open>\<^verbatim>\<open>a || b\<close>\<close>
  "js_or a b = (if truthy a then a else b)"

definition get_prop :: "(string \<times> json) list \<Rightarrow> string \<Rightarrow> json" where
  \<comment> \<open>\<^verbatim>\<open>obj.k\<close> on an object: a missing property reads as \<^verbatim>\<open>undefined\<close>\<close>
  "get_prop kvs k = (case map_of kvs k of None \<Rightarrow> JUndefined | Some v \<Rightarrow> v)"

text \<open>
  The enumerable properties of an object as \<^verbatim>\<open>for (const key in obj)\<close> visits them and as
  \<^verbatim>\<open>obj[key]\<close> reads them: the own ones, then those of the prototype that no own one
  hides. The standard prototype has no enumerable property.
\<close>

fun for_in :: "json \<Rightarrow> (string \<times> json) list" where
  "for_in (JObj kvs) = kvs"
| "for_in (JObjProto kvs p) = kvs @ filter (\<lambda>(k, v). k \<notin> fst ` set kvs) (for_in p)"
| "for_in _ = []"

text \<open>
  \<^verbatim>\<open>obj[k] = v\<close> on the empty object literal, for an object \<open>v\<close>: the key \<^verbatim>\<open>__proto__\<close>
  sets the prototype and adds no property.
\<close>

definition assign_to_empty :: "string \<Rightarrow> json \<Rightarrow> json" where
  "assign_to_empty k v = (if k = ''__proto__'' then JObjProto [] v else JObj [(k, v)])"

section \<open>Cluster configuration (types/config.ts)\<close>

record auth_config =
  username :: "string option"
  password :: "string option"
  apiKey :: "string option"
  awsRegion :: "string option"
  awsService :: "string option"

record ssl_config =
  rejectUnauthorized :: bool
  ca :: "string option"
  cert :: "string option"
  key :: "string option"
  caCertPath :: "string option"
  caBundle :: "string option"

record OpenSearchClusterConfig =
  node :: string
  nodes :: "string list option"
  auth :: "auth_config option"
  ssl :: "ssl_config option"
  requestTimeout :: int
  pingTimeout :: int
  maxRetries :: int
  compression :: bool
  defaultIndex :: "string option"
  indexPrefix :: "string option"

record OpenSearchConfig =
  clusters :: "(string \<times> OpenSearchClusterConfig) list"

section \<open>The client (opensearch/client.ts)\<close>

text \<open>
  An \<^verbatim>\<open>OpenSearchClient\<close> holds the configuration it was built from and the handle of
  the client library.
\<close>

record OpenSearchClient =
  config :: OpenSearchClusterConfig

text \<open>
  \<^verbatim>\<open>
  private applyIndexPrefix(index: string): string {
    if (this.config.indexPrefix && !index.startsWith(this.config.indexPrefix)) {
      return `${this.config.indexPrefix}${index}`;
    }
    return index;
  }
  \<close>
  The prefix is optional in the configuration; \<^verbatim>\<open>undefined\<close> and the empty string are
  both falsy.
\<close>

definition applyIndexPrefix :: "OpenSearchClient \<Rightarrow> string \<Rightarrow> string" where
  "applyIndexPrefix this index =
     (case indexPrefix (config this) of
        None \<Rightarrow> index
      | Some p \<Rightarrow> if p \<noteq> [] \<and> \<not> prefix p index then p @ index else index)"

section \<open>Configuration resolution (types/config.ts)\<close>

subsection \<open>What the platform and the outside world decide\<close>

text \<open>
  The code calls into the language runtime, the schema library and the client library.
  Their answers are parameters of the model:
  \<^item> \<open>JSON_parse s\<close> is the value \<^verbatim>\<open>JSON.parse(s)\<close> returns, \<open>None\<close> when it throws;
  \<^item> \<open>parseInt s\<close> is the number \<^verbatim>\<open>parseInt(s)\<close> returns (\<open>JNaN\<close> when there is none);
  \<^item> \<open>is_url s\<close> holds when the schema library's \<^verbatim>\<open>.url()\<close> check accepts \<open>s\<close>;
  \<^item> \<open>zod_issues v\<close> is the rendering of the issues the multi-cluster schema reports on \<open>v\<close>;
  \<^item> \<open>require_aws_sdk\<close> is the message of the error that \<^verbatim>\<open>require('aws-sdk')\<close> and
    \<^verbatim>\<open>new AWS.Config()\<close> throw, \<open>None\<close> when they return; in an ES module, which
    index.ts is (it reads \<^verbatim>\<open>import.meta.url\<close>), \<^verbatim>\<open>require\<close> is not defined;
  \<^item> \<open>readFileSync path\<close> is the text of the file, \<open>Inl\<close> of the printed error when reading
    it throws;
  \<^item> \<open>new_Client c\<close> is the message of the error the client library's constructor throws
    on the options made from \<open>c\<close>, \<open>None\<close> when it returns;
  \<^item> \<open>ping n c\<close> is the outcome of \<^verbatim>\<open>client.ping()\<close> on the client \<open>c\<close> built for the
    configuration entry named \<open>n\<close>;
  \<^item> \<open>invoke c m as\<close> is the outcome of calling the method \<open>m\<close> of the client \<open>c\<close> on the
    actual parameters \<open>as\<close>: \<open>Inl msg\<close> when it throws an error with that message.
\<close>

record world =
  JSON_parse :: "string \<Rightarrow> json option"
  parseInt :: "string \<Rightarrow> json"
  is_url :: "string \<Rightarrow> bool"
  zod_issues :: "json \<Rightarrow> string"
  require_aws_sdk :: "string option"
  readFileSync :: "string \<Rightarrow> string + string"
  new_Client :: "OpenSearchClusterConfig \<Rightarrow> string option"
  ping :: "string \<Rightarrow> OpenSearchClient \<Rightarrow> bool"
  invoke :: "OpenSearchClient \<Rightarrow> string \<Rightarrow> json list \<Rightarrow> string + json"

subsection \<open>The constructor of the client (opensearch/client.ts)\<close>

text \<open>
  \<^verbatim>\<open>
  constructor(config) { this.config = config; this.client = this.createClient(config); }

  private createClient(config) {
    const clientConfig: any = { node: config.node, ... };
    if (config.auth) {
      ...
      if (config.auth.awsRegion) {
        const AWS = require('aws-sdk');
        const awsCredentials = new AWS.Config();
        ...
      }
    }
    if (config.ssl && config.node?.startsWith('https')) {
      ...
      if (config.ssl.caCertPath) {
        try { ... fs.readFileSync(config.ssl.caCertPath, 'utf8') ... }
        catch (error) { console.warn(`Warning: Could not read CA certificate file ...`); }
      }
      ...
    }
    return new Client(clientConfig);
  }
  \<close>
  The constructor returns the lines it wrote with \<^verbatim>\<open>console.warn\<close> and either the client
  or the message of the error it threw.
\<close>

definition wants_aws :: "OpenSearchClusterConfig \<Rightarrow> bool" where
  \<comment> \<open>\<^verbatim>\<open>config.auth && config.auth.awsRegion\<close>\<close>
  "wants_aws c =
     (case auth c of
        None \<Rightarrow> False
      | Some a \<Rightarrow> (case awsRegion a of None \<Rightarrow> False | Some r \<Rightarrow> r \<noteq> []))"

definition ca_warnings :: "world \<Rightarrow> OpenSearchClusterConfig \<Rightarrow> string list" where
  "ca_warnings w c =
     (case ssl c of
        None \<Rightarrow> []
      | Some s \<Rightarrow>
          if \<not> prefix ''https'' (node c) then []
          else (case caCertPath s of
                  None \<Rightarrow> []
                | Some path \<Rightarrow>
                    if path = [] then []
                    else (case readFileSync w path of
                            Inl error \<Rightarrow>
                              [''Warning: Could not read CA certificate file '' @ path
                                 @ '': '' @ error]
                          | Inr content \<Rightarrow> [])))"

definition new_OpenSearchClient ::
  "world \<Rightarrow> OpenSearchClusterConfig \<Rightarrow> string list \<times> (string + OpenSearchClient)" where
  "new_OpenSearchClient w c =
     (case (if wants_aws c then require_aws_sdk w else None) of
        Some msg \<Rightarrow> ([], Inl msg)
      | None \<Rightarrow>
          (ca_warnings w c,
           (case new_Client w c of Some msg \<Rightarrow> Inl msg | None \<Rightarrow> Inr \<lparr>config = c\<rparr>)))"

subsection \<open>Reading the environment\<close>

type_synonym environment = "string \<Rightarrow> string option"

definition env_value :: "environment \<Rightarrow> string \<Rightarrow> json" where
  \<comment> \<open>\<^verbatim>\<open>process.env.K\<close>\<close>
  "env_value env k = (case env k of None \<Rightarrow> JUndefined | Some s \<Rightarrow> JStr s)"

definition env_truthy :: "environment \<Rightarrow> string \<Rightarrow> string option" where
  \<comment> \<open>the string of \<^verbatim>\<open>process.env.K\<close> when it is truthy: set and not empty\<close>
  "env_truthy env k = (case env k of None \<Rightarrow> None | Some s \<Rightarrow> if s = [] then None else Some s)"

fun split_on :: "char \<Rightarrow> string \<Rightarrow> string list" where
  "split_on c [] = [[]]"
| "split_on c (x # xs) =
     (if x = c then [] # split_on c xs
      else (case split_on c xs of [] \<Rightarrow> [[x]] | w # ws \<Rightarrow> (x # w) # ws))"

text \<open>
  The object literal that both the named and the legacy branch of
  \<^verbatim>\<open>createConfigFromEnv\<close> build from the individual variables.
\<close>

definition cluster_from_env :: "world \<Rightarrow> environment \<Rightarrow> json" where
  "cluster_from_env w env = JObj
     [(''node'', js_or (env_value env ''OPENSEARCH_URL'') (env_value env ''OPENSEARCH_NODE'')),
      (''nodes'', (case env_truthy env ''OPENSEARCH_NODES'' of
                     Some s \<Rightarrow> JArr (map JStr (split_on (CHR '','') s))
                   | None \<Rightarrow> JUndefined)),
      (''auth'', JObj
         [(''username'', env_value env ''OPENSEARCH_USERNAME''),
          (''password'', env_value env ''OPENSEARCH_PASSWORD''),
          (''apiKey'', env_value env ''OPENSEARCH_API_KEY''),
          (''awsRegion'', env_value env ''AWS_REGION''),
          (''awsService'', js_or (env_value env ''AWS_SERVICE'') (JStr ''es''))]),
      (''ssl'', JObj
         [(''rejectUnauthorized'',
             JBool (env_value env ''OPENSEARCH_REJECT_UNAUTHORIZED'' \<noteq> JStr ''false'')),
          (''caCertPath'', env_value env ''OPENSEARCH_CA_CERT_PATH''),
          (''caBundle'', env_value env ''OPENSEARCH_CA_BUNDLE'')]),
      (''requestTimeout'', (case env_truthy env ''OPENSEARCH_REQUEST_TIMEOUT'' of
                              Some s \<Rightarrow> parseInt w s
                            | None \<Rightarrow> JUndefined)),
      (''defaultIndex'', env_value env ''OPENSEARCH_DEFAULT_INDEX''),
      (''indexPrefix'', env_value env ''OPENSEARCH_INDEX_PREFIX'')]"

definition has_endpoint :: "environment \<Rightarrow> bool" where
  \<comment> \<open>\<^verbatim>\<open>process.env.OPENSEARCH_URL || process.env.OPENSEARCH_NODE\<close> as a condition\<close>
  "has_endpoint env =
     truthy (js_or (env_value env ''OPENSEARCH_URL'') (env_value env ''OPENSEARCH_NODE''))"

definition legacy_or_empty :: "world \<Rightarrow> environment \<Rightarrow> json" where
  \<comment> \<open>the end of \<^verbatim>\<open>createConfigFromEnv\<close>: the legacy cluster \<^verbatim>\<open>default\<close>, or no cluster\<close>
  "legacy_or_empty w env =
     (if has_endpoint env
      then JObj [(''clusters'', JObj [(''default'', cluster_from_env w env)])]
      else JObj [(''clusters'', JObj [])])"

definition parse_warning :: string where
  "parse_warning = ''Failed to parse OPENSEARCH_CLUSTERS JSON, falling back to legacy format''"

text \<open>
  \<^verbatim>\<open>createConfigFromEnv\<close> returns the configuration object and the lines it wrote with
  \<^verbatim>\<open>console.warn\<close>. It never throws. The named branch is
  \<^verbatim>\<open>clusters[clusterName] = { ... }\<close> on \<^verbatim>\<open>const clusters = {}\<close>.
\<close>

definition createConfigFromEnv :: "world \<Rightarrow> environment \<Rightarrow> json \<times> string list" where
  "createConfigFromEnv w env =
     (case (env_truthy env ''OPENSEARCH_CLUSTER_NAME'', has_endpoint env) of
        (Some clusterName, True) \<Rightarrow>
          (JObj [(''clusters'', assign_to_empty clusterName (cluster_from_env w env))], [])
      | _ \<Rightarrow>
          (case env_truthy env ''OPENSEARCH_CLUSTERS'' of
             Some s \<Rightarrow>
               (case JSON_parse w s of
                  Some clustersConfig \<Rightarrow> (JObj [(''clusters'', clustersConfig)], [])
                | None \<Rightarrow> (legacy_or_empty w env, [parse_warning]))
           | None \<Rightarrow> (legacy_or_empty w env, [])))"

subsection \<open>The schemas\<close>

text \<open>
  Each schema is a partial function from values to parsed results; \<open>None\<close> is a
  validation failure. An object schema (in the library's default mode) accepts any object,
  reads the keys of its shape with \<^verbatim>\<open>data[key]\<close>, where a key that is missing reads as
  \<^verbatim>\<open>undefined\<close>, and drops the other keys. A record schema visits the keys with
  \<^verbatim>\<open>for (const key in data)\<close>, fails when a value fails, and builds its result from the
  pairs it has parsed, leaving out the key \<^verbatim>\<open>__proto__\<close>.
\<close>

fun z_string :: "json \<Rightarrow> string option" where
  "z_string (JStr s) = Some s"
| "z_string _ = None"

fun z_url :: "world \<Rightarrow> json \<Rightarrow> string option" where
  "z_url w (JStr s) = (if is_url w s then Some s else None)"
| "z_url w _ = None"

fun z_number :: "json \<Rightarrow> int option" where
  "z_number (JNum n) = Some n"
| "z_number _ = None"

fun z_boolean :: "json \<Rightarrow> bool option" where
  "z_boolean (JBool b) = Some b"
| "z_boolean _ = None"

definition z_optional :: "(json \<Rightarrow> 'a option) \<Rightarrow> json \<Rightarrow> 'a option option" where
  "z_optional p v = (if v = JUndefined then Some None else map_option Some (p v))"

definition z_default :: "'a \<Rightarrow> (json \<Rightarrow> 'a option) \<Rightarrow> json \<Rightarrow> 'a option" where
  "z_default d p v = (if v = JUndefined then Some d else p v)"

fun z_array :: "(json \<Rightarrow> 'a option) \<Rightarrow> json \<Rightarrow> 'a list option" where
  "z_array p (JArr xs) = those (map p xs)"
| "z_array p _ = None"

fun z_object :: "((string \<times> json) list \<Rightarrow> 'a option) \<Rightarrow> json \<Rightarrow> 'a option" where
  \<comment> \<open>the value must be an object; the shape reads its enumerable properties\<close>
  "z_object shape (JObj kvs) = shape kvs"
| "z_object shape (JObjProto kvs p) = shape (for_in (JObjProto kvs p))"
| "z_object shape _ = None"

definition record_shape :: "(json \<Rightarrow> 'a option) \<Rightarrow> (string \<times> json) list \<Rightarrow> (string \<times> 'a) list option" where
  "record_shape p kvs =
     map_option (filter (\<lambda>(k, x). k \<noteq> ''__proto__''))
       (those (map (\<lambda>(k, v). map_option (Pair k) (p v)) kvs))"

definition z_record :: "(json \<Rightarrow> 'a option) \<Rightarrow> json \<Rightarrow> (string \<times> 'a) list option" where
  "z_record p v = z_object (record_shape p) v"

definition auth_shape :: "(string \<times> json) list \<Rightarrow> auth_config option" where
  "auth_shape kvs =
     (case (z_optional z_string (get_prop kvs ''username''),
            z_optional z_string (get_prop kvs ''password''),
            z_optional z_string (get_prop kvs ''apiKey''),
            z_optional z_string (get_prop kvs ''awsRegion''),
            z_optional z_string (get_prop kvs ''awsService'')) of
        (Some u, Some p, Some k, Some r, Some s) \<Rightarrow>
          Some \<lparr>username = u, password = p, apiKey = k, awsRegion = r, awsService = s\<rparr>
      | _ \<Rightarrow> None)"

definition auth_schema :: "json \<Rightarrow> auth_config option" where
  "auth_schema v = z_object auth_shape v"

definition ssl_shape :: "(string \<times> json) list \<Rightarrow> ssl_config option" where
  "ssl_shape kvs =
     (case (z_default True z_boolean (get_prop kvs ''rejectUnauthorized''),
            z_optional z_string (get_prop kvs ''ca''),
            z_optional z_string (get_prop kvs ''cert''),
            z_optional z_string (get_prop kvs ''key''),
            z_optional z_string (get_prop kvs ''caCertPath''),
            z_optional z_string (get_prop kvs ''caBundle'')) of
        (Some r, Some a, Some c, Some k, Some p, Some b) \<Rightarrow>
          Some \<lparr>rejectUnauthorized = r, ca = a, cert = c, key = k,
                caCertPath = p, caBundle = b\<rparr>
      | _ \<Rightarrow> None)"

definition ssl_schema :: "json \<Rightarrow> ssl_config option" where
  "ssl_schema v = z_object ssl_shape v"

definition cluster_shape :: "world \<Rightarrow> (string \<times> json) list \<Rightarrow> OpenSearchClusterConfig option" where
  "cluster_shape w kvs =
     (case (z_url w (get_prop kvs ''node''),
            z_optional (z_array (z_url w)) (get_prop kvs ''nodes''),
            z_optional auth_schema (get_prop kvs ''auth''),
            z_optional ssl_schema (get_prop kvs ''ssl''),
            z_default 30000 z_number (get_prop kvs ''requestTimeout''),
            z_default 3000 z_number (get_prop kvs ''pingTimeout''),
            z_default 3 z_number (get_prop kvs ''maxRetries''),
            z_default False z_boolean (get_prop kvs ''compression''),
            z_optional z_string (get_prop kvs ''defaultIndex''),
            z_optional z_string (get_prop kvs ''indexPrefix'')) of
        (Some n, Some ns, Some a, Some s, Some rt, Some pt, Some mr, Some c, Some di, Some ip) \<Rightarrow>
          Some \<lparr>node = n, nodes = ns, auth = a, ssl = s, requestTimeout = rt,
                pingTimeout = pt, maxRetries = mr, compression = c,
                defaultIndex = di, indexPrefix = ip\<rparr>
      | _ \<Rightarrow> None)"

definition OpenSearchClusterConfigSchema :: "world \<Rightarrow> json \<Rightarrow> OpenSearchClusterConfig option" where
  "OpenSearchClusterConfigSchema w v = z_object (cluster_shape w) v"

definition config_shape :: "world \<Rightarrow> (string \<times> json) list \<Rightarrow> OpenSearchConfig option" where
  "config_shape w kvs =
     map_option (\<lambda>cs. \<lparr>clusters = cs\<rparr>)
       (z_record (OpenSearchClusterConfigSchema w) (get_prop kvs ''clusters''))"

definition OpenSearchConfigSchema :: "world \<Rightarrow> json \<Rightarrow> OpenSearchConfig option" where
  "OpenSearchConfigSchema w v = z_object (config_shape w) v"

text \<open>
  \<^verbatim>\<open>validateConfig\<close>: the multi-cluster schema first; when it rejects the value, the
  single-cluster schema on the same value, whose result becomes the cluster
  \<^verbatim>\<open>default\<close>; when both reject it, an \<^verbatim>\<open>Error\<close> whose message lists the issues of the
  first attempt. The result is \<open>Inl\<close> of the message of the error thrown.
\<close>

definition validateConfig :: "world \<Rightarrow> json \<Rightarrow> string + OpenSearchConfig" where
  "validateConfig w cfg =
     (case OpenSearchConfigSchema w cfg of
        Some c \<Rightarrow> Inr c
      | None \<Rightarrow>
          (case OpenSearchClusterConfigSchema w cfg of
             Some legacyConfig \<Rightarrow> Inr \<lparr>clusters = [(''default'', legacyConfig)]\<rparr>
           | None \<Rightarrow>
               Inl (''Invalid OpenSearch configuration:'' @ [CHR 0x0A] @ zod_issues w cfg)))"

section \<open>The server (index.ts)\<close>

subsection \<open>Errors, console output and calls to the outside\<close>

datatype ErrorCode =
    ConnectionClosed | RequestTimeout | ParseError | InvalidRequest
  | MethodNotFound | InvalidParams | InternalError

datatype McpError = McpError ErrorCode string

text \<open>What a handler can throw: an \<^verbatim>\<open>McpError\<close>, or another error with its message.\<close>

datatype thrown = Mcp McpError | JsError string

text \<open>
  What one request does beyond its result: the probes it sends, the client methods it
  invokes (on which client, with which actual parameters) and the lines it writes with
  \<^verbatim>\<open>console.warn\<close>, in order.
\<close>

datatype event =
    Pinged string
  | Called OpenSearchClient string "json list"
  | Warned string

fun contacts_backend :: "event \<Rightarrow> bool" where
  "contacts_backend (Pinged n) = True"
| "contacts_backend (Called c m as) = True"
| "contacts_backend (Warned s) = False"

subsection \<open>Strings\<close>

fun join :: "string \<Rightarrow> string list \<Rightarrow> string" where
  \<comment> \<open>\<^verbatim>\<open>xs.join(sep)\<close>\<close>
  "join sep [] = []"
| "join sep [x] = x"
| "join sep (x # y # ys) = x @ sep @ join sep (y # ys)"

fun show_nat :: "nat \<Rightarrow> string" where
  "show_nat n =
     (if n < 10 then [char_of (48 + n)]
      else show_nat (n div 10) @ [char_of (48 + n mod 10)])"

declare show_nat.simps [simp del]

definition show_int :: "int \<Rightarrow> string" where
  "show_int i = (if i < 0 then CHR ''-'' # show_nat (nat (- i)) else show_nat (nat i))"

text \<open>The string a template literal \<^verbatim>\<open>`${v}`\<close> puts in for a value.\<close>

fun js_to_string :: "json \<Rightarrow> string" where
  "js_to_string JUndefined = ''undefined''"
| "js_to_string JNull = ''null''"
| "js_to_string (JBool b) = (if b then ''true'' else ''false'')"
| "js_to_string (JNum n) = show_int n"
| "js_to_string JNaN = ''NaN''"
| "js_to_string (JStr s) = s"
| "js_to_string (JArr xs) =
     join '','' (map (\<lambda>x. if x = JUndefined \<or> x = JNull then [] else js_to_string x) xs)"
| "js_to_string (JObj kvs) = ''[object Object]''"
| "js_to_string (JObjProto kvs p) = ''[object Object]''"

fun object_keys :: "json \<Rightarrow> string + string list" where
  \<comment> \<open>\<^verbatim>\<open>Object.keys(v)\<close>; \<open>Inl\<close> is the message of the \<^verbatim>\<open>TypeError\<close>\<close>
  "object_keys (JObj kvs) = Inr (map fst kvs)"
| "object_keys (JObjProto kvs p) = Inr (map fst kvs)"
| "object_keys (JArr xs) = Inr (map show_nat [0..<length xs])"
| "object_keys (JStr s) = Inr (map show_nat [0..<length s])"
| "object_keys JUndefined = Inl ''Cannot convert undefined or null to object''"
| "object_keys JNull = Inl ''Cannot convert undefined or null to object''"
| "object_keys _ = Inr []"

subsection \<open>The registry of clients\<close>

text \<open>
  \<^verbatim>\<open>opensearchClients\<close> is a \<^verbatim>\<open>Map\<close> from cluster name to client: an association list in
  insertion order. \<^verbatim>\<open>Map.set\<close> replaces the value of a key in place and appends a new key
  (\<^const>\<open>AList.update\<close>); \<^verbatim>\<open>this.config\<close> is the validated configuration, \<^verbatim>\<open>null\<close> at first.
\<close>

record OpenSearchMCPServer =
  opensearchClients :: "(string \<times> OpenSearchClient) list"
  server_config :: "OpenSearchConfig option"

definition new_OpenSearchMCPServer :: OpenSearchMCPServer where
  "new_OpenSearchMCPServer = \<lparr>opensearchClients = [], server_config = None\<rparr>"

definition connect_warning :: "string \<Rightarrow> string" where
  "connect_warning clusterName =
     ''Warning: Failed to connect to OpenSearch cluster '' @ [CHR 0x27] @ clusterName @ [CHR 0x27]"

text \<open>
  The loop of \<^verbatim>\<open>initializeOpenSearch\<close> over \<^verbatim>\<open>Object.entries(this.config.clusters)\<close>: a
  client per entry, a probe, and the client enters the map only when the probe succeeds.
  When a constructor throws, the loop is left for the \<^verbatim>\<open>catch\<close> of the function, the
  clients set so far staying in the map: the third component is the message thrown.
\<close>

fun connect_clusters ::
  "world \<Rightarrow> (string \<times> OpenSearchClusterConfig) list \<Rightarrow> (string \<times> OpenSearchClient) list
     \<Rightarrow> (string \<times> OpenSearchClient) list \<times> event list \<times> string option" where
  "connect_clusters w [] cs = (cs, [], None)"
| "connect_clusters w ((clusterName, clusterConfig) # rest) cs =
     (case new_OpenSearchClient w clusterConfig of
        (warnings, Inl msg) \<Rightarrow> (cs, map Warned warnings, Some msg)
      | (warnings, Inr client) \<Rightarrow>
          if \<not> ping w clusterName client
          then (case connect_clusters w rest cs of
                  (cs', evs, t) \<Rightarrow>
                    (cs',
                     map Warned warnings @ Pinged clusterName
                       # Warned (connect_warning clusterName) # evs,
                     t))
          else (case connect_clusters w rest (AList.update clusterName client cs) of
                  (cs', evs, t) \<Rightarrow>
                    (cs', map Warned warnings @ Pinged clusterName # evs, t)))"

definition no_cluster_message :: string where
  "no_cluster_message = ''Failed to connect to any OpenSearch cluster''"

definition initialize_failed :: "string \<Rightarrow> McpError" where
  \<comment> \<open>the \<^verbatim>\<open>catch\<close> of \<^verbatim>\<open>initializeOpenSearch\<close> wraps the message of whatever was thrown\<close>
  "initialize_failed msg = McpError InternalError (''Failed to initialize OpenSearch: '' @ msg)"

definition initializeOpenSearch ::
  "world \<Rightarrow> environment \<Rightarrow> OpenSearchMCPServer
     \<Rightarrow> (McpError + unit) \<times> OpenSearchMCPServer \<times> event list" where
  "initializeOpenSearch w env this =
     (if opensearchClients this \<noteq> [] then (Inr (), this, [])
      else
        (case createConfigFromEnv w env of
           (envConfig, warnings) \<Rightarrow>
             (case validateConfig w envConfig of
                Inl msg \<Rightarrow> (Inl (initialize_failed msg), this, map Warned warnings)
              | Inr cfg \<Rightarrow>
                  (case connect_clusters w (clusters cfg) (opensearchClients this) of
                     (cs, evs, thrown) \<Rightarrow>
                       ((case thrown of
                           Some msg \<Rightarrow> Inl (initialize_failed msg)
                         | None \<Rightarrow>
                             if cs = [] then Inl (initialize_failed no_cluster_message)
                             else Inr ()),
                        this\<lparr>opensearchClients := cs, server_config := Some cfg\<rparr>,
                        map Warned warnings @ evs)))))"

definition getAvailableClusters :: "OpenSearchMCPServer \<Rightarrow> string list" where
  "getAvailableClusters this = map fst (opensearchClients this)"

definition map_get :: "(string \<times> 'v) list \<Rightarrow> json \<Rightarrow> 'v option" where
  \<comment> \<open>\<^verbatim>\<open>Map.get\<close> on a map whose keys are strings: no other value is a key\<close>
  "map_get m k = (case k of JStr s \<Rightarrow> map_of m s | _ \<Rightarrow> None)"

definition no_clusters_configured :: McpError where
  "no_clusters_configured = McpError InvalidRequest
     ''No clusters configured. Please configure at least one OpenSearch cluster.''"

definition cluster_not_found :: "json \<Rightarrow> string list \<Rightarrow> McpError" where
  "cluster_not_found targetCluster available = McpError InvalidRequest
     (''Cluster '' @ [CHR 0x27] @ js_to_string targetCluster @ [CHR 0x27]
        @ '' not found. Available clusters: '' @ join '', '' available)"

text \<open>
  \<^verbatim>\<open>
  private getClient(clusterName?: string): OpenSearchClient {
    const targetCluster = clusterName || Array.from(this.opensearchClients.keys())[0];
    if (!targetCluster) { throw new McpError(ErrorCode.InvalidRequest, "No clusters ...") }
    const client = this.opensearchClients.get(targetCluster);
    if (!client) {
      const availableClusters = Array.from(this.opensearchClients.keys()).join(', ');
      throw new McpError(ErrorCode.InvalidRequest,
        `Cluster '${targetCluster}' not found. Available clusters: ${availableClusters}`);
    }
    return client;
  }
  \<close>
  The handlers pass \<^verbatim>\<open>args.cluster\<close>, which is any value.
\<close>

definition getClient :: "OpenSearchMCPServer \<Rightarrow> json \<Rightarrow> McpError + OpenSearchClient" where
  "getClient this clusterName =
     (let targetCluster =
            js_or clusterName
              (case opensearchClients this of [] \<Rightarrow> JUndefined | (k, c) # rest \<Rightarrow> JStr k)
      in if \<not> truthy targetCluster then Inl no_clusters_configured
         else (case map_get (opensearchClients this) targetCluster of
                 None \<Rightarrow> Inl (cluster_not_found targetCluster
                              (map fst (opensearchClients this)))
               | Some client \<Rightarrow> Inr client))"

subsection \<open>The tool catalog\<close>

text \<open>
  The tools the \<^verbatim>\<open>ListTools\<close> handler announces, each with the \<^verbatim>\<open>required\<close> list of its
  input schema (empty when the schema declares none).
\<close>

definition tool_catalog :: "(string \<times> string list) list" where
  "tool_catalog =
     [(''opensearch_list_clusters'', []),
      (''opensearch_search'', []),
      (''opensearch_aggregate'', [''index'', ''aggregations'']),
      (''opensearch_count'', []),
      (''opensearch_index_document'', [''index'', ''document'']),
      (''opensearch_bulk_index'', [''operations'']),
      (''opensearch_get_document'', [''index'', ''id'']),
      (''opensearch_update_document'', [''index'', ''id'']),
      (''opensearch_delete_document'', [''index'', ''id'']),
      (''opensearch_list_indices'', []),
      (''opensearch_create_index'', [''index'']),
      (''opensearch_delete_index'', [''index'']),
      (''opensearch_get_mapping'', []),
      (''opensearch_put_mapping'', [''index'', ''mappings'']),
      (''opensearch_cluster_health'', []),
      (''opensearch_cluster_stats'', []),
      (''opensearch_index_stats'', []),
      (''opensearch_cluster_info'', []),
      (''opensearch_create_user'', [''username'', ''password'']),
      (''opensearch_delete_user'', [''username'']),
      (''opensearch_get_user'', [''username'']),
      (''opensearch_list_users'', []),
      (''opensearch_create_role'', [''role_name'', ''permissions'']),
      (''opensearch_delete_role'', [''role_name'']),
      (''opensearch_get_role'', [''role_name'']),
      (''opensearch_list_roles'', []),
      (''opensearch_map_role'', [''role_name'']),
      (''opensearch_get_role_mapping'', [''role_name'']),
      (''opensearch_list_role_mappings'', [])]"



text \<open>
  The methods the class \<^verbatim>\<open>OpenSearchClient\<close> defines (opensearch/client.ts), the two
  private ones last.
\<close>

definition OpenSearchClient_methods :: "string list" where
  "OpenSearchClient_methods =
     [''ping'', ''info'', ''clusterHealth'', ''clusterStats'', ''search'', ''index'', ''bulk'',
      ''get'', ''delete'', ''update'', ''catIndices'', ''indexStats'', ''createIndex'',
      ''deleteIndex'', ''indexExists'', ''getMapping'', ''putMapping'', ''refresh'', ''count'',
      ''aggregate'', ''close'', ''createClient'', ''applyIndexPrefix'']"

subsection \<open>The handlers\<close>

text \<open>
  Every handler but \<^verbatim>\<open>handleListClusters\<close> has one shape:
  \<^verbatim>\<open>
  private async handleX(args: any) {
    const client = this.getClient(args.cluster);
    const result = await client.method(actual parameters read from args);
    return { content: [{ type: "text", text: JSON.stringify(payload, null, 2) }] };
  }
  \<close>
  A handler is described by the method it calls, the actual parameters it builds and the
  payload it serialises; the model returns the payload itself. Building the payload can
  throw (\<^verbatim>\<open>Object.keys\<close>).
\<close>

record client_tool =
  method_name :: string
  actuals :: "(string \<times> json) list \<Rightarrow> json list"
  payload :: "(string \<times> json) list \<Rightarrow> json \<Rightarrow> string + json"

definition plain :: "(string \<times> json) list \<Rightarrow> json \<Rightarrow> string + json" where
  \<comment> \<open>\<^verbatim>\<open>JSON.stringify(result, null, 2)\<close>\<close>
  "plain args result = Inr result"

definition success ::
  "string \<Rightarrow> string \<Rightarrow> string \<Rightarrow> (string \<times> json) list \<Rightarrow> json \<Rightarrow> string + json" where
  \<comment> \<open>\<^verbatim>\<open>{ success: true, message: `What '${args.field}' done successfully`, details: result }\<close>\<close>
  "success what field verb args result = Inr (JObj
     [(''success'', JBool True),
      (''message'', JStr (what @ '' '' @ [CHR 0x27] @ js_to_string (get_prop args field)
                            @ [CHR 0x27] @ '' '' @ verb @ '' successfully'')),
      (''details'', result)])"

definition summary ::
  "string \<Rightarrow> string \<Rightarrow> (string \<times> json) list \<Rightarrow> json \<Rightarrow> string + json" where
  \<comment> \<open>\<^verbatim>\<open>{ total_xs: Object.keys(result).length, xs: Object.keys(result), details: result }\<close>\<close>
  "summary total_key names_key args result =
     (case object_keys result of
        Inl msg \<Rightarrow> Inl msg
      | Inr ks \<Rightarrow> Inr (JObj [(total_key, JNum (int (length ks))),
                              (names_key, JArr (map JStr ks)),
                              (''details'', result)]))"

definition fields :: "string list \<Rightarrow> (string \<times> json) list \<Rightarrow> json list" where
  \<comment> \<open>the actual parameters \<^verbatim>\<open>args.f1, args.f2, ...\<close>\<close>
  "fields fs args = map (get_prop args) fs"

definition request :: "(string \<times> string) list \<Rightarrow> (string \<times> json) list \<Rightarrow> json" where
  \<comment> \<open>the object literal \<^verbatim>\<open>{ k1: args.f1, k2: args.f2, ... }\<close>\<close>
  "request kfs args = JObj (map (\<lambda>(k, f). (k, get_prop args f)) kfs)"

text \<open>
  \<^verbatim>\<open>handleSearch\<close> builds its parameter object step by step:
  \<^verbatim>\<open>
  const searchParams: any = { index: args.index, size: args.size || 10, from: args.from || 0 };
  if (args.query) { searchParams.body = { query: args.query }; }
  else if (args.q) { searchParams.q = args.q; }
  if (args.sort) searchParams.sort = args.sort;
  if (args._source !== undefined) searchParams._source = args._source;
  if (args.highlight) {
    if (!searchParams.body) searchParams.body = {};
    searchParams.body.highlight = args.highlight;
  }
  \<close>
\<close>

definition handleSearch_params :: "(string \<times> json) list \<Rightarrow> json" where
  "handleSearch_params args =
     (let p0 = [(''index'', get_prop args ''index''),
                (''size'', js_or (get_prop args ''size'') (JNum 10)),
                (''from'', js_or (get_prop args ''from'') (JNum 0))];
          p1 = (if truthy (get_prop args ''query'')
                then p0 @ [(''body'', JObj [(''query'', get_prop args ''query'')])]
                else if truthy (get_prop args ''q'') then p0 @ [(''q'', get_prop args ''q'')]
                else p0);
          p2 = (if truthy (get_prop args ''sort'')
                then p1 @ [(''sort'', get_prop args ''sort'')] else p1);
          p3 = (if get_prop args ''_source'' \<noteq> JUndefined
                then p2 @ [(''_source'', get_prop args ''_source'')] else p2);
          p4 = (if truthy (get_prop args ''highlight'')
                then (if truthy (get_prop args ''query'')
                      then AList.update ''body''
                             (JObj [(''query'', get_prop args ''query''),
                                    (''highlight'', get_prop args ''highlight'')]) p3
                      else p3 @ [(''body'', JObj [(''highlight'', get_prop args ''highlight'')])])
                else p3)
      in JObj p4)"

text \<open>
  \<^verbatim>\<open>handleUpdateDocument\<close>:
  \<^verbatim>\<open>
  const body: any = {};
  if (args.doc) body.doc = args.doc;
  if (args.script) body.script = args.script;
  if (args.upsert) body.upsert = args.upsert;
  \<close>
\<close>

definition handleUpdateDocument_body :: "(string \<times> json) list \<Rightarrow> json" where
  "handleUpdateDocument_body args =
     JObj (filter (\<lambda>(k, v). truthy v)
             [(''doc'', get_prop args ''doc''),
              (''script'', get_prop args ''script''),
              (''upsert'', get_prop args ''upsert'')])"

definition count_body :: "(string \<times> json) list \<Rightarrow> json" where
  \<comment> \<open>\<^verbatim>\<open>args.query ? { query: args.query } : undefined\<close>\<close>
  "count_body args =
     (if truthy (get_prop args ''query'') then JObj [(''query'', get_prop args ''query'')]
      else JUndefined)"

text \<open>The \<^verbatim>\<open>case\<close> labels of the \<^verbatim>\<open>switch\<close> that lead to a client call, in its order.\<close>

definition client_tools :: "(string \<times> client_tool) list" where
  "client_tools =
     [(''opensearch_search'',
         \<lparr>method_name = ''search'', actuals = (\<lambda>args. [handleSearch_params args]), payload = plain\<rparr>),
      (''opensearch_aggregate'',
         \<lparr>method_name = ''aggregate'', actuals = fields [''index'', ''aggregations'', ''query''],
          payload = plain\<rparr>),
      (''opensearch_count'',
         \<lparr>method_name = ''count'', actuals = (\<lambda>args. [get_prop args ''index'', count_body args]),
          payload = plain\<rparr>),
      (''opensearch_index_document'',
         \<lparr>method_name = ''index'',
          actuals = (\<lambda>args. [request [(''index'', ''index''), (''id'', ''id''),
                                       (''body'', ''document''), (''refresh'', ''refresh'')] args]),
          payload = plain\<rparr>),
      (''opensearch_bulk_index'',
         \<lparr>method_name = ''bulk'',
          actuals = (\<lambda>args. [request [(''body'', ''operations''), (''refresh'', ''refresh'')] args]),
          payload = plain\<rparr>),
      (''opensearch_get_document'',
         \<lparr>method_name = ''get'',
          actuals = (\<lambda>args. [request [(''index'', ''index''), (''id'', ''id''),
                                       (''_source'', ''_source'')] args]),
          payload = plain\<rparr>),
      (''opensearch_update_document'',
         \<lparr>method_name = ''update'',
          actuals = (\<lambda>args. [JObj [(''index'', get_prop args ''index''),
                                    (''id'', get_prop args ''id''),
                                    (''body'', handleUpdateDocument_body args),
                                    (''refresh'', get_prop args ''refresh'')]]),
          payload = plain\<rparr>),
      (''opensearch_delete_document'',
         \<lparr>method_name = ''delete'',
          actuals = (\<lambda>args. [request [(''index'', ''index''), (''id'', ''id''),
                                       (''refresh'', ''refresh'')] args]),
          payload = plain\<rparr>),
      (''opensearch_list_indices'',
         \<lparr>method_name = ''catIndices'', actuals = (\<lambda>args. [JObj args]), payload = plain\<rparr>),
      (''opensearch_create_index'',
         \<lparr>method_name = ''createIndex'', actuals = fields [''index'', ''settings'', ''mappings''],
          payload = plain\<rparr>),
      (''opensearch_delete_index'',
         \<lparr>method_name = ''deleteIndex'', actuals = fields [''index''], payload = plain\<rparr>),
      (''opensearch_get_mapping'',
         \<lparr>method_name = ''getMapping'', actuals = fields [''index''], payload = plain\<rparr>),
      (''opensearch_put_mapping'',
         \<lparr>method_name = ''putMapping'', actuals = fields [''index'', ''mappings''], payload = plain\<rparr>),
      (''opensearch_cluster_health'',
         \<lparr>method_name = ''clusterHealth'',
          actuals = (\<lambda>args. [get_prop args ''index'', JObj args]), payload = plain\<rparr>),
      (''opensearch_cluster_stats'',
         \<lparr>method_name = ''clusterStats'', actuals = fields [], payload = plain\<rparr>),
      (''opensearch_index_stats'',
         \<lparr>method_name = ''indexStats'', actuals = fields [''index''], payload = plain\<rparr>),
      (''opensearch_cluster_info'',
         \<lparr>method_name = ''info'', actuals = fields [], payload = plain\<rparr>),
      (''opensearch_create_user'',
         \<lparr>method_name = ''createUser'', actuals = fields [''username'', ''password'', ''attributes''],
          payload = success ''User'' ''username'' ''created''\<rparr>),
      (''opensearch_delete_user'',
         \<lparr>method_name = ''deleteUser'', actuals = fields [''username''],
          payload = success ''User'' ''username'' ''deleted''\<rparr>),
      (''opensearch_get_user'',
         \<lparr>method_name = ''getUser'', actuals = fields [''username''], payload = plain\<rparr>),
      (''opensearch_list_users'',
         \<lparr>method_name = ''listUsers'', actuals = fields [],
          payload = summary ''total_users'' ''users''\<rparr>),
      (''opensearch_create_role'',
         \<lparr>method_name = ''createRole'', actuals = fields [''role_name'', ''permissions''],
          payload = success ''Role'' ''role_name'' ''created''\<rparr>),
      (''opensearch_delete_role'',
         \<lparr>method_name = ''deleteRole'', actuals = fields [''role_name''],
          payload = success ''Role'' ''role_name'' ''deleted''\<rparr>),
      (''opensearch_get_role'',
         \<lparr>method_name = ''getRole'', actuals = fields [''role_name''], payload = plain\<rparr>),
      (''opensearch_list_roles'',
         \<lparr>method_name = ''listRoles'', actuals = fields [],
          payload = summary ''total_roles'' ''roles''\<rparr>),
      (''opensearch_map_role'',
         \<lparr>method_name = ''createRoleMapping'',
          actuals = fields [''role_name'', ''users'', ''backend_roles'', ''hosts''],
          payload = success ''Role mapping for'' ''role_name'' ''created''\<rparr>),
      (''opensearch_get_role_mapping'',
         \<lparr>method_name = ''getRoleMapping'', actuals = fields [''role_name''], payload = plain\<rparr>),
      (''opensearch_list_role_mappings'',
         \<lparr>method_name = ''listRoleMappings'', actuals = fields [],
          payload = summary ''total_mappings'' ''role_mappings''\<rparr>)]"

definition handleListClusters :: "OpenSearchMCPServer \<Rightarrow> json" where
  \<comment> \<open>\<^verbatim>\<open>{ clusters: clusters, count: clusters.length }\<close>; the arguments are not read\<close>
  "handleListClusters this =
     JObj [(''clusters'', JArr (map JStr (getAvailableClusters this))),
           (''count'', JNum (int (length (getAvailableClusters this))))]"

text \<open>
  A request may come without \<^verbatim>\<open>arguments\<close>; then \<^verbatim>\<open>args\<close> is \<^verbatim>\<open>undefined\<close> and reading
  \<^verbatim>\<open>args.cluster\<close> throws. Calling a method_name the client does not have throws as well.
\<close>

definition handle_client_tool ::
  "world \<Rightarrow> OpenSearchMCPServer \<Rightarrow> client_tool \<Rightarrow> (string \<times> json) list option
     \<Rightarrow> (thrown + json) \<times> event list" where
  "handle_client_tool w this t arguments =
     (case arguments of
        None \<Rightarrow>
          (Inl (JsError (''Cannot read properties of undefined (reading ''
                          @ [CHR 0x27] @ ''cluster'' @ [CHR 0x27] @ '')'')), [])
      | Some args \<Rightarrow>
          (case getClient this (get_prop args ''cluster'') of
             Inl e \<Rightarrow> (Inl (Mcp e), [])
           | Inr client \<Rightarrow>
               if method_name t \<notin> set OpenSearchClient_methods
               then (Inl (JsError (''client.'' @ method_name t @ '' is not a function'')), [])
               else (case invoke w client (method_name t) (actuals t args) of
                       Inl msg \<Rightarrow> (Inl (JsError msg), [Called client (method_name t) (actuals t args)])
                     | Inr result \<Rightarrow>
                         ((case payload t args result of
                             Inl msg \<Rightarrow> Inl (JsError msg)
                           | Inr v \<Rightarrow> Inr v),
                          [Called client (method_name t) (actuals t args)]))))"

definition unknown_tool :: "string \<Rightarrow> McpError" where
  "unknown_tool name = McpError MethodNotFound (''Unknown tool: '' @ name)"

definition switch_tool ::
  "world \<Rightarrow> OpenSearchMCPServer \<Rightarrow> string \<Rightarrow> (string \<times> json) list option
     \<Rightarrow> (thrown + json) \<times> event list" where
  \<comment> \<open>the \<^verbatim>\<open>switch (name)\<close> of the handler\<close>
  "switch_tool w this name arguments =
     (if name = ''opensearch_list_clusters'' then (Inr (handleListClusters this), [])
      else (case map_of client_tools name of
              Some t \<Rightarrow> handle_client_tool w this t arguments
            | None \<Rightarrow> (Inl (Mcp (unknown_tool name)), [])))"

definition tool_failed :: "string \<Rightarrow> string \<Rightarrow> McpError" where
  "tool_failed name msg = McpError InternalError (''Tool '' @ name @ '' failed: '' @ msg)"

text \<open>
  The handler of \<^verbatim>\<open>CallToolRequestSchema\<close>:
  \<^verbatim>\<open>
  await this.initializeOpenSearch();
  if (this.opensearchClients.size === 0) {
    throw new McpError(ErrorCode.InternalError, "OpenSearch clients not initialized");
  }
  const { name, arguments: args } = request.params;
  try { switch (name) { ... default: throw new McpError(ErrorCode.MethodNotFound, ...) } }
  catch (error) {
    if (error instanceof McpError) { throw error; }
    throw new McpError(ErrorCode.InternalError, `Tool ${name} failed: ${...message}`);
  }
  \<close>
  It returns the outcome, the server afterwards and what happened on the way.
\<close>

definition CallTool ::
  "world \<Rightarrow> environment \<Rightarrow> OpenSearchMCPServer \<Rightarrow> string \<Rightarrow> (string \<times> json) list option
     \<Rightarrow> (McpError + json) \<times> OpenSearchMCPServer \<times> event list" where
  "CallTool w env this name arguments =
     (case initializeOpenSearch w env this of
        (Inl e, this', evs) \<Rightarrow> (Inl e, this', evs)
      | (Inr u, this', evs) \<Rightarrow>
          if opensearchClients this' = []
          then (Inl (McpError InternalError ''OpenSearch clients not initialized''), this', evs)
          else (case switch_tool w this' name arguments of
                  (Inl (Mcp e), evs') \<Rightarrow> (Inl e, this', evs @ evs')
                | (Inl (JsError msg), evs') \<Rightarrow> (Inl (tool_failed name msg), this', evs @ evs')
                | (Inr v, evs') \<Rightarrow> (Inr v, this', evs @ evs')))"

section \<open>A concrete deployment\<close>

text \<open>
  The concrete evaluations below run on a deployment with two clusters, \<^verbatim>\<open>east\<close> and
  \<^verbatim>\<open>west\<close>, of which only \<^verbatim>\<open>east\<close> answers its probe. The platform functions are given
  by their values at the inputs that occur.
\<close>

definition bulk_text :: string where
  \<open>bulk_text = ''{"east":{"node":"http://east:9200"},"west":{"node":"http://west:9200"}}''\<close>

definition bulk_value :: json where
  "bulk_value = JObj [(''east'', JObj [(''node'', JStr ''http://east:9200'')]),
                      (''west'', JObj [(''node'', JStr ''http://west:9200'')])]"

definition broken_text :: string where
  \<open>broken_text = ''{"east":{"node":"http://east:9200"},"west":{}}''\<close>

definition broken_value :: json where
  "broken_value = JObj [(''east'', JObj [(''node'', JStr ''http://east:9200'')]),
                        (''west'', JObj [])]"

definition example_world :: world where
  "example_world =
     \<lparr>JSON_parse = (\<lambda>s. if s = bulk_text then Some bulk_value
                         else if s = broken_text then Some broken_value
                         else if s = ''{}'' then Some (JObj [])
                         else None),
      parseInt = (\<lambda>s. if s = ''5000'' then JNum 5000 else JNaN),
      is_url = (\<lambda>s. s = ''http://east:9200'' \<or> s = ''http://west:9200''),
      zod_issues = (\<lambda>v. ''clusters.west.node: Required''),
      require_aws_sdk = Some ''require is not defined'',
      readFileSync = (\<lambda>path. Inl ''Error: ENOENT: no such file or directory''),
      new_Client = (\<lambda>c. None),
      ping = (\<lambda>n c. n = ''east''),
      invoke = (\<lambda>c m as. Inr (JObj []))\<rparr>"

definition all_up :: world where
  \<comment> \<open>the same deployment while both clusters answer\<close>
  "all_up = example_world\<lparr>ping := (\<lambda>n c. True)\<rparr>"

definition endpoint_config :: "string \<Rightarrow> OpenSearchClusterConfig" where
  \<comment> \<open>what the cluster schema makes of \<^verbatim>\<open>{ node: url }\<close>: the defaults filled in\<close>
  "endpoint_config url =
     \<lparr>node = url, nodes = None, auth = None, ssl = None, requestTimeout = 30000,
      pingTimeout = 3000, maxRetries = 3, compression = False,
      defaultIndex = None, indexPrefix = None\<rparr>"

definition east_client :: OpenSearchClient where
  "east_client = \<lparr>config = endpoint_config ''http://east:9200''\<rparr>"

definition west_client :: OpenSearchClient where
  "west_client = \<lparr>config = endpoint_config ''http://west:9200''\<rparr>"

definition logs_client :: OpenSearchClient where
  "logs_client =
     \<lparr>config = (endpoint_config ''http://east:9200'')\<lparr>indexPrefix := Some ''logs-''\<rparr>\<rparr>"

definition bulk_config :: OpenSearchConfig where
  "bulk_config = \<lparr>clusters = [(''east'', endpoint_config ''http://east:9200''),
                               (''west'', endpoint_config ''http://west:9200'')]\<rparr>"

definition east_only :: OpenSearchMCPServer where
  \<comment> \<open>the server once it has initialised in \<^const>\<open>example_world\<close>\<close>
  "east_only = \<lparr>opensearchClients = [(''east'', east_client)],
                 server_config = Some bulk_config\<rparr>"

definition both_up :: OpenSearchMCPServer where
  \<comment> \<open>the server once it has initialised in \<^const>\<open>all_up\<close>\<close>
  "both_up = \<lparr>opensearchClients = [(''east'', east_client), (''west'', west_client)],
               server_config = Some bulk_config\<rparr>"

definition bulk_env :: environment where
  "bulk_env = [''OPENSEARCH_CLUSTERS'' \<mapsto> bulk_text, ''OPENSEARCH_DEFAULT_CLUSTER'' \<mapsto> ''west'']"

definition broken_env :: environment where
  "broken_env = [''OPENSEARCH_CLUSTERS'' \<mapsto> broken_text]"

definition west_env :: environment where
  \<comment> \<open>the legacy variables alone, pointing at the cluster that does not answer\<close>
  "west_env = [''OPENSEARCH_URL'' \<mapsto> ''http://west:9200'']"

definition empty_bulk_env :: environment where
  "empty_bulk_env = [''OPENSEARCH_CLUSTERS'' \<mapsto> ''{}'', ''OPENSEARCH_URL'' \<mapsto> ''http://east:9200'']"

definition bulk_and_legacy_env :: environment where
  "bulk_and_legacy_env =
     [''OPENSEARCH_CLUSTERS'' \<mapsto> bulk_text, ''OPENSEARCH_URL'' \<mapsto> ''http://west:9200'']"

definition aws_config :: OpenSearchClusterConfig where
  \<comment> \<open>what the cluster schema makes of the legacy variables of \<open>aws_env\<close> below\<close>
  "aws_config =
     \<lparr>node = ''http://east:9200'', nodes = None,
      auth = Some \<lparr>username = None, password = None, apiKey = None,
                    awsRegion = Some ''us-east-1'', awsService = Some ''es''\<rparr>,
      ssl = Some \<lparr>rejectUnauthorized = True, ca = None, cert = None, key = None,
                   caCertPath = None, caBundle = None\<rparr>,
      requestTimeout = 30000, pingTimeout = 3000, maxRetries = 3, compression = False,
      defaultIndex = None, indexPrefix = None\<rparr>"

definition aws_env :: environment where
  \<comment> \<open>the legacy variables of a cluster that answers, in a process that has a region set\<close>
  "aws_env = [''OPENSEARCH_URL'' \<mapsto> ''http://east:9200'', ''AWS_REGION'' \<mapsto> ''us-east-1'']"


definition proto_value :: json where
  \<comment> \<open>what \<^verbatim>\<open>JSON.parse\<close> makes of a declaration with the two keys \<^verbatim>\<open>east\<close> and \<^verbatim>\<open>__proto__\<close>\<close>
  "proto_value = JObj [(''east'', JObj [(''node'', JStr ''http://east:9200'')]),
                       (''__proto__'', JObj [(''node'', JStr ''http://west:9200'')])]"


section \<open>Notions the properties are stated with\<close>

text \<open>
  The entries of a configuration whose probe succeeds and those whose probe fails, the
  clients built for a list of entries, and the condition under which the named
  single-cluster variables apply.
\<close>

definition live_entries :: "world \<Rightarrow> (string \<times> OpenSearchClusterConfig) list \<Rightarrow> (string \<times> OpenSearchClusterConfig) list" where
  "live_entries w es = filter (\<lambda>(n, c). ping w n \<lparr>config = c\<rparr>) es"

definition failed_entries :: "world \<Rightarrow> (string \<times> OpenSearchClusterConfig) list \<Rightarrow> (string \<times> OpenSearchClusterConfig) list" where
  "failed_entries w es = filter (\<lambda>(n, c). \<not> ping w n \<lparr>config = c\<rparr>) es"

definition connect :: "(string \<times> OpenSearchClusterConfig) list \<Rightarrow> (string \<times> OpenSearchClient) list" where
  "connect es = map (\<lambda>(n, c). (n, \<lparr>config = c\<rparr>)) es"

definition constructs :: "world \<Rightarrow> OpenSearchClusterConfig \<Rightarrow> bool" where
  \<comment> \<open>the constructor of the client returns on this configuration\<close>
  "constructs w c = (snd (new_OpenSearchClient w c) = Inr \<lparr>config = c\<rparr>)"


text \<open>
  The precedence rule read as an ordered list of attempts, each yielding a cluster map or
  nothing, of which the first that yields one wins: the named single-cluster variables,
  the bulk declaration (present when it is set and parses), the legacy variables.
  \<^verbatim>\<open>createConfigFromEnv\<close>, written as a chain of early returns around a \<^verbatim>\<open>try\<close>, is
  compared with this reading below.
\<close>

definition named_source :: "world \<Rightarrow> environment \<Rightarrow> json option" where
  "named_source w env =
     (case env_truthy env ''OPENSEARCH_CLUSTER_NAME'' of
        Some n \<Rightarrow> if has_endpoint env then Some (JObj [(n, cluster_from_env w env)]) else None
      | None \<Rightarrow> None)"

definition bulk_source :: "world \<Rightarrow> environment \<Rightarrow> json option" where
  "bulk_source w env =
     (case env_truthy env ''OPENSEARCH_CLUSTERS'' of Some s \<Rightarrow> JSON_parse w s | None \<Rightarrow> None)"

definition legacy_source :: "world \<Rightarrow> environment \<Rightarrow> json option" where
  "legacy_source w env =
     (if has_endpoint env then Some (JObj [(''default'', cluster_from_env w env)]) else None)"

fun first_present :: "'a option list \<Rightarrow> 'a option" where
  "first_present [] = None"
| "first_present (Some x # xs) = Some x"
| "first_present (None # xs) = first_present xs"

section \<open>Properties\<close>

subsection \<open>Auxiliary facts\<close>

lemma update_fresh: "k \<notin> fst ` set al \<Longrightarrow> AList.update k v al = al @ [(k, v)]"
  by (induction al) auto

lemma constructsD:
  assumes "constructs w c"
  obtains warnings where "new_OpenSearchClient w c = (warnings, Inr \<lparr>config = c\<rparr>)"
  using assms by (cases "new_OpenSearchClient w c") (simp add: constructs_def)

lemma connect_clusters_clients:
  "distinct (map fst es) \<Longrightarrow> fst ` set es \<inter> fst ` set cs = {} \<Longrightarrow>
   \<forall>(n, c) \<in> set es. constructs w c \<Longrightarrow>
   fst (connect_clusters w es cs) = cs @ connect (live_entries w es)
   \<and> snd (snd (connect_clusters w es cs)) = None"
proof (induction es arbitrary: cs)
  case Nil
  then show ?case by (simp add: connect_def live_entries_def)
next
  case (Cons e es)
  obtain n c where e: "e = (n, c)" by (cases e)
  have d: "distinct (map fst es)" and nn: "n \<notin> fst ` set es" and nc: "n \<notin> fst ` set cs"
    and disj: "fst ` set es \<inter> fst ` set cs = {}"
    and rest: "\<forall>(n, c) \<in> set es. constructs w c" and this_one: "constructs w c"
    using Cons.prems e by auto
  obtain warnings where k: "new_OpenSearchClient w c = (warnings, Inr \<lparr>config = c\<rparr>)"
    using this_one by (rule constructsD)
  show ?case
  proof (cases "ping w n \<lparr>config = c\<rparr>")
    case True
    have "fst ` set es \<inter> fst ` set (cs @ [(n, \<lparr>config = c\<rparr>)]) = {}"
      using disj nn by auto
    from Cons.IH [OF d this rest] True nc show ?thesis
      by (cases "connect_clusters w es (cs @ [(n, \<lparr>config = c\<rparr>)])")
         (simp add: e k update_fresh connect_def live_entries_def)
  next
    case False
    from Cons.IH [OF d disj rest] False show ?thesis
      by (cases "connect_clusters w es cs") (simp add: e k connect_def live_entries_def)
  qed
qed

lemma live_failed_length: "length (live_entries w es) + length (failed_entries w es) = length es"
  unfolding live_entries_def failed_entries_def
  by (induction es) auto

lemma initialize_success_nonempty:
  "initializeOpenSearch w env this = (Inr u, this', evs) \<Longrightarrow> opensearchClients this' \<noteq> []"
  by (auto simp: initializeOpenSearch_def split: if_splits prod.splits sum.splits option.splits)

lemma initialize_idle:
  "opensearchClients this \<noteq> [] \<Longrightarrow> initializeOpenSearch w env this = (Inr (), this, [])"
  by (simp add: initializeOpenSearch_def)

lemma catalog_names:
  "set (map fst tool_catalog) = insert ''opensearch_list_clusters'' (set (map fst client_tools))"
  by (simp add: tool_catalog_def client_tools_def insert_commute)

lemma switch_unknown:
  assumes "name \<notin> set (map fst tool_catalog)"
  shows "switch_tool w this name arguments = (Inl (Mcp (unknown_tool name)), [])"
proof -
  from assms have a: "name \<noteq> ''opensearch_list_clusters''" and b: "name \<notin> fst ` set client_tools"
    unfolding catalog_names by auto
  from b have "map_of client_tools name = None" by (simp add: map_of_eq_None_iff)
  with a show ?thesis by (simp add: switch_tool_def)
qed

lemma env_value_other: "k' \<noteq> k \<Longrightarrow> env_value (env(k := d)) k' = env_value env k'"
  by (simp add: env_value_def)

lemma env_truthy_other: "k' \<noteq> k \<Longrightarrow> env_truthy (env(k := d)) k' = env_truthy env k'"
  by (simp add: env_truthy_def)

lemma cluster_from_env_ignores_default:
  "cluster_from_env w (env(''OPENSEARCH_DEFAULT_CLUSTER'' := d)) = cluster_from_env w env"
  by (simp add: cluster_from_env_def env_value_other env_truthy_other)

lemma has_endpoint_ignores_default:
  "has_endpoint (env(''OPENSEARCH_DEFAULT_CLUSTER'' := d)) = has_endpoint env"
  by (simp add: has_endpoint_def env_value_other)

lemma createConfigFromEnv_ignores_default:
  "createConfigFromEnv w (env(''OPENSEARCH_DEFAULT_CLUSTER'' := d)) = createConfigFromEnv w env"
proof -
  have a: "env_truthy (env(''OPENSEARCH_DEFAULT_CLUSTER'' := d)) ''OPENSEARCH_CLUSTER_NAME''
             = env_truthy env ''OPENSEARCH_CLUSTER_NAME''"
    by (simp add: env_truthy_other)
  have b: "env_truthy (env(''OPENSEARCH_DEFAULT_CLUSTER'' := d)) ''OPENSEARCH_CLUSTERS''
             = env_truthy env ''OPENSEARCH_CLUSTERS''"
    by (simp add: env_truthy_other)
  show ?thesis
    unfolding createConfigFromEnv_def legacy_or_empty_def a b
      cluster_from_env_ignores_default has_endpoint_ignores_default
    by (rule refl)
qed


lemma tools_without_method:
  "map fst (filter (\<lambda>(n, t). method_name t \<notin> set OpenSearchClient_methods) client_tools) =
     [''opensearch_create_user'', ''opensearch_delete_user'', ''opensearch_get_user'',
      ''opensearch_list_users'', ''opensearch_create_role'', ''opensearch_delete_role'',
      ''opensearch_get_role'', ''opensearch_list_roles'', ''opensearch_map_role'',
      ''opensearch_get_role_mapping'', ''opensearch_list_role_mappings'']"
  by (simp add: client_tools_def OpenSearchClient_methods_def)






lemma those_map:
  "those (map f xs) = (if \<forall>x \<in> set xs. f x \<noteq> None then Some (map (\<lambda>x. the (f x)) xs) else None)"
  by (induction xs) (auto split: option.splits)

lemmas schema_defs =
  OpenSearchConfigSchema_def config_shape_def z_record_def record_shape_def
  OpenSearchClusterConfigSchema_def cluster_shape_def auth_schema_def auth_shape_def
  ssl_schema_def ssl_shape_def z_optional_def z_default_def get_prop_def

lemma z_record_all_or_nothing:
  "z_record p (JObj kvs) =
     (if \<forall>(k, v) \<in> set kvs. p v \<noteq> None
      then Some (map (\<lambda>(k, v). (k, the (p v))) (filter (\<lambda>(k, v). k \<noteq> ''__proto__'') kvs))
      else None)"
proof -
  have a: "(\<forall>x \<in> set kvs. (case x of (k, v) \<Rightarrow> map_option (Pair k) (p v)) \<noteq> None)
             \<longleftrightarrow> (\<forall>(k, v) \<in> set kvs. p v \<noteq> None)"
    by (auto split: prod.splits)
  have b: "map (\<lambda>x. the (case x of (k, v) \<Rightarrow> map_option (Pair k) (p v))) kvs
             = map (\<lambda>(k, v). (k, the (p v))) kvs"
    if "\<forall>(k, v) \<in> set kvs. p v \<noteq> None"
    using that by (intro map_cong refl) force
  have c: "filter (\<lambda>(k, x). k \<noteq> ''__proto__'') (map (\<lambda>(k, v). (k, the (p v))) kvs)
             = map (\<lambda>(k, v). (k, the (p v))) (filter (\<lambda>(k, v). k \<noteq> ''__proto__'') kvs)"
    by (induction kvs) auto
  show ?thesis
  proof (cases "\<forall>(k, v) \<in> set kvs. p v \<noteq> None")
    case True
    have "those (map (\<lambda>(k, v). map_option (Pair k) (p v)) kvs)
            = Some (map (\<lambda>(k, v). (k, the (p v))) kvs)"
      using True a b [OF True] by (simp add: those_map)
    then show ?thesis
      using True c by (simp add: z_record_def record_shape_def)
  next
    case False
    have "those (map (\<lambda>(k, v). map_option (Pair k) (p v)) kvs) = None"
      using False a by (simp add: those_map)
    then show ?thesis
      using False by (simp add: z_record_def record_shape_def)
  qed
qed

lemma legacy_schema_rejects_clusters_object:
  "OpenSearchClusterConfigSchema w (JObj [(''clusters'', x)]) = None"
  by (simp add: OpenSearchClusterConfigSchema_def cluster_shape_def get_prop_def)

lemma east_entry_valid:
  "OpenSearchClusterConfigSchema example_world (JObj [(''node'', JStr ''http://east:9200'')])
     = Some (endpoint_config ''http://east:9200'')"
  by (simp add: schema_defs example_world_def endpoint_config_def)

lemma west_entry_valid:
  "OpenSearchClusterConfigSchema example_world (JObj [(''node'', JStr ''http://west:9200'')])
     = Some (endpoint_config ''http://west:9200'')"
  by (simp add: schema_defs example_world_def endpoint_config_def)

lemma empty_entry_invalid: "OpenSearchClusterConfigSchema w (JObj []) = None"
  by (simp add: OpenSearchClusterConfigSchema_def cluster_shape_def get_prop_def)

lemma endpoint_config_constructs: "constructs example_world (endpoint_config url)"
  by (simp add: constructs_def new_OpenSearchClient_def wants_aws_def ca_warnings_def
      endpoint_config_def example_world_def)

subsection \<open>Registry construction\<close>

text \<open>
  Where the constructor of every client returns, registry construction does what claim
  C4 says: of N configured clusters of which K fail their probe, the registry holds the
  N - K others in configuration order, and construction fails, with the error that no
  cluster could be connected, exactly when K = N. The cluster names are the keys of the
  configuration object, hence distinct; construction starts from the empty registry.
\<close>

lemma initialize_partial_failure:
  assumes "opensearchClients this = []"
    and "validateConfig w (fst (createConfigFromEnv w env)) = Inr cfg"
    and "distinct (map fst (clusters cfg))"
    and "\<forall>(n, c) \<in> set (clusters cfg). constructs w c"
  shows "opensearchClients (fst (snd (initializeOpenSearch w env this)))
           = connect (live_entries w (clusters cfg))
       \<and> length (opensearchClients (fst (snd (initializeOpenSearch w env this))))
           = length (clusters cfg) - length (failed_entries w (clusters cfg))
       \<and> (length (failed_entries w (clusters cfg)) < length (clusters cfg)
            \<longrightarrow> fst (initializeOpenSearch w env this) = Inr ())
       \<and> (length (failed_entries w (clusters cfg)) = length (clusters cfg)
            \<longrightarrow> fst (initializeOpenSearch w env this)
                  = Inl (McpError InternalError
                      ''Failed to initialize OpenSearch: Failed to connect to any OpenSearch cluster''))"
proof -
  obtain envConfig warnings where c: "createConfigFromEnv w env = (envConfig, warnings)"
    by (cases "createConfigFromEnv w env")
  obtain cs evs t where k: "connect_clusters w (clusters cfg) [] = (cs, evs, t)"
    by (cases "connect_clusters w (clusters cfg) []")
  have v: "validateConfig w envConfig = Inr cfg" using assms(2) c by simp
  have cs: "cs = connect (live_entries w (clusters cfg))" and t: "t = None"
    using connect_clusters_clients [OF assms(3) _ assms(4), of "[]"] k by simp_all
  have r: "initializeOpenSearch w env this =
             (if cs = [] then Inl (initialize_failed no_cluster_message) else Inr (),
              this\<lparr>opensearchClients := cs, server_config := Some cfg\<rparr>,
              map Warned warnings @ evs)"
    using assms(1) c v k t by (simp add: initializeOpenSearch_def)
  have len: "length cs = length (clusters cfg) - length (failed_entries w (clusters cfg))"
    using live_failed_length [of w "clusters cfg"] by (simp add: cs connect_def)
  have e: "cs = [] \<longleftrightarrow> length (failed_entries w (clusters cfg)) = length (clusters cfg)"
    using live_failed_length [of w "clusters cfg"] by (auto simp: cs connect_def)
  show ?thesis
    using len e cs by (simp add: r initialize_failed_def no_cluster_message_def)
qed

lemma bulk_env_config:
  "validateConfig example_world (fst (createConfigFromEnv example_world bulk_env)) = Inr bulk_config"
  by (simp add: createConfigFromEnv_def env_truthy_def bulk_env_def has_endpoint_def env_value_def
      js_or_def example_world_def validateConfig_def bulk_value_def schema_defs
      bulk_config_def endpoint_config_def bulk_text_def)

lemma initialize_partial_failure_example:
  "length (clusters bulk_config) = 2
   \<and> length (failed_entries example_world (clusters bulk_config)) = 1
   \<and> opensearchClients (fst (snd (initializeOpenSearch example_world bulk_env new_OpenSearchMCPServer)))
       = [(''east'', east_client)]
   \<and> fst (initializeOpenSearch example_world bulk_env new_OpenSearchMCPServer) = Inr ()"
proof -
  have a: "opensearchClients new_OpenSearchMCPServer = []"
    by (simp add: new_OpenSearchMCPServer_def)
  have d: "distinct (map fst (clusters bulk_config))" by (simp add: bulk_config_def)
  have k: "\<forall>(n, c) \<in> set (clusters bulk_config). constructs example_world c"
    by (simp add: bulk_config_def endpoint_config_constructs)
  have f: "length (failed_entries example_world (clusters bulk_config)) = 1"
    by (simp add: failed_entries_def bulk_config_def example_world_def)
  have l: "connect (live_entries example_world (clusters bulk_config)) = [(''east'', east_client)]"
    by (simp add: connect_def live_entries_def bulk_config_def example_world_def east_client_def)
  have n: "length (clusters bulk_config) = 2" by (simp add: bulk_config_def)
  show ?thesis
    using initialize_partial_failure [OF a bulk_env_config d k] f l n by simp
qed

text \<open>
  Claim C4 says that of N configured clusters of which K < N fail their liveness probe,
  registry construction succeeds with the N - K others. The constructor of the client
  runs inside the \<^verbatim>\<open>try\<close> of \<^verbatim>\<open>initializeOpenSearch\<close> and calls \<^verbatim>\<open>require('aws-sdk')\<close> when
  the configuration has a region, which throws in an ES module. With the legacy variables
  of a cluster that answers and \<^verbatim>\<open>AWS_REGION\<close> set, one cluster is configured and none
  fails its probe, yet construction fails, before any probe is sent.
\<close>

theorem aws_region_aborts_construction:
  "validateConfig all_up (fst (createConfigFromEnv all_up aws_env))
     = Inr \<lparr>clusters = [(''default'', aws_config)]\<rparr>
   \<and> failed_entries all_up [(''default'', aws_config)] = []
   \<and> initializeOpenSearch all_up aws_env new_OpenSearchMCPServer
       = (Inl (McpError InternalError ''Failed to initialize OpenSearch: require is not defined''),
          \<lparr>opensearchClients = [], server_config = Some \<lparr>clusters = [(''default'', aws_config)]\<rparr>\<rparr>,
          [])"
proof -
  have c: "createConfigFromEnv all_up aws_env
             = (JObj [(''clusters'', JObj [(''default'', cluster_from_env all_up aws_env)])], [])"
    by (simp add: createConfigFromEnv_def env_truthy_def aws_env_def has_endpoint_def
        env_value_def js_or_def legacy_or_empty_def)
  have e: "OpenSearchClusterConfigSchema all_up (cluster_from_env all_up aws_env) = Some aws_config"
    by (simp add: cluster_from_env_def env_truthy_def env_value_def js_or_def aws_env_def
        schema_defs all_up_def example_world_def aws_config_def)
  have v: "validateConfig all_up
             (JObj [(''clusters'', JObj [(''default'', cluster_from_env all_up aws_env)])])
           = Inr \<lparr>clusters = [(''default'', aws_config)]\<rparr>"
    by (simp add: validateConfig_def OpenSearchConfigSchema_def config_shape_def get_prop_def
        z_record_all_or_nothing e)
  have f: "failed_entries all_up [(''default'', aws_config)] = []"
    by (simp add: failed_entries_def all_up_def)
  have k: "new_OpenSearchClient all_up aws_config = ([], Inl ''require is not defined'')"
    by (simp add: new_OpenSearchClient_def wants_aws_def aws_config_def all_up_def
        example_world_def)
  have i: "initializeOpenSearch all_up aws_env new_OpenSearchMCPServer
       = (Inl (McpError InternalError ''Failed to initialize OpenSearch: require is not defined''),
          \<lparr>opensearchClients = [], server_config = Some \<lparr>clusters = [(''default'', aws_config)]\<rparr>\<rparr>,
          [])"
    unfolding initializeOpenSearch_def c
    by (simp add: v k new_OpenSearchMCPServer_def initialize_failed_def)
  show ?thesis using c v f i by simp
qed

subsection \<open>Resolving a cluster\<close>

text \<open>
  Claim C1, as stated: with at least one surviving cluster, resolving with no name returns
  the configured default cluster when it is among the survivors, and otherwise the first
  surviving cluster in construction order. The code has no default cluster: it never
  reads a default-cluster setting, and \<^verbatim>\<open>getClient\<close> with no name always takes the first
  key of the map. In the deployment below the environment names \<^verbatim>\<open>west\<close> as the default
  cluster and \<^verbatim>\<open>west\<close> is among the survivors, yet resolving with no name returns the
  client of \<^verbatim>\<open>east\<close>.
\<close>

theorem default_cluster_not_consulted:
  "bulk_env ''OPENSEARCH_DEFAULT_CLUSTER'' = Some ''west''
   \<and> initializeOpenSearch all_up bulk_env new_OpenSearchMCPServer
       = (Inr (), both_up, [Pinged ''east'', Pinged ''west''])
   \<and> getClient both_up (JStr ''west'') = Inr west_client
   \<and> getClient both_up JUndefined = Inr east_client
   \<and> east_client \<noteq> west_client"
  by (simp add: initializeOpenSearch_def new_OpenSearchMCPServer_def createConfigFromEnv_def
      env_truthy_def bulk_env_def has_endpoint_def env_value_def js_or_def example_world_def
      all_up_def validateConfig_def bulk_value_def schema_defs
      both_up_def bulk_config_def east_client_def west_client_def endpoint_config_def
      new_OpenSearchClient_def wants_aws_def ca_warnings_def
      bulk_text_def broken_text_def getClient_def map_get_def)


text \<open>
  Claim C1, as amended: for every registry state with at least one surviving cluster,
  resolving with no name returns the first surviving cluster in construction order
  (its name not being the empty string); no default-cluster setting is consulted, as
  registry construction is the same whatever \<^verbatim>\<open>OPENSEARCH_DEFAULT_CLUSTER\<close> holds.
\<close>

theorem getClient_without_name:
  assumes "opensearchClients this = (n, c) # rest" and "n \<noteq> []"
  shows "getClient this JUndefined = Inr c
       \<and> initializeOpenSearch w (env(''OPENSEARCH_DEFAULT_CLUSTER'' := d)) s
           = initializeOpenSearch w env s"
  using assms
  by (simp add: getClient_def js_or_def map_get_def initializeOpenSearch_def
      createConfigFromEnv_ignores_default)

theorem getClient_without_name_witness:
  "opensearchClients both_up = (''east'', east_client) # [(''west'', west_client)]
   \<and> ''east'' \<noteq> []
   \<and> getClient both_up JUndefined = Inr east_client
   \<and> initializeOpenSearch all_up (bulk_env(''OPENSEARCH_DEFAULT_CLUSTER'' := None))
         new_OpenSearchMCPServer
       = initializeOpenSearch all_up bulk_env new_OpenSearchMCPServer"
proof -
  have a: "opensearchClients both_up = (''east'', east_client) # [(''west'', west_client)]"
    by (simp add: both_up_def)
  have b: "''east'' \<noteq> []" by simp
  show ?thesis
    using getClient_without_name [OF a b, of all_up bulk_env None new_OpenSearchMCPServer] a
    by simp
qed


text \<open>
  Claim C7, as stated: for every name not present among the surviving clusters, resolving
  that name fails with a not-found error and no client is returned. \<^verbatim>\<open>getClient\<close> tests
  the name with \<^verbatim>\<open>||\<close>, so the empty string counts as no name at all: it is not the name
  of any cluster, and resolving it returns the first client.
\<close>

theorem empty_name_resolves:
  "[] \<notin> set (getAvailableClusters east_only) \<and> getClient east_only (JStr []) = Inr east_client"
  by (simp add: getAvailableClusters_def east_only_def getClient_def js_or_def map_get_def)


text \<open>
  Claim C7, as amended: for every non-empty name not present among the registry's
  surviving clusters, resolving that name fails with an invalid-request error whose
  message names the cluster asked for and enumerates the available cluster names,
  separated by commas; no client is returned.
\<close>

theorem getClient_unknown_name:
  assumes "n \<noteq> []" and "n \<notin> set (getAvailableClusters this)"
  shows "getClient this (JStr n) =
           Inl (McpError InvalidRequest
                  (''Cluster '' @ [CHR 0x27] @ n @ [CHR 0x27] @ '' not found. Available clusters: ''
                     @ join '', '' (getAvailableClusters this)))"
proof -
  from assms(2) have "map_of (opensearchClients this) n = None"
    by (simp add: getAvailableClusters_def map_of_eq_None_iff)
  with assms(1) show ?thesis
    by (simp add: getClient_def js_or_def map_get_def cluster_not_found_def
        getAvailableClusters_def)
qed

theorem getClient_unknown_name_witness:
  "''west'' \<noteq> [] \<and> ''west'' \<notin> set (getAvailableClusters east_only)
   \<and> getClient east_only (JStr ''west'') =
       Inl (McpError InvalidRequest (''Cluster '' @ [CHR 0x27] @ ''west'' @ [CHR 0x27] @ '' not found. Available clusters: east''))"
proof -
  have a: "''west'' \<noteq> []" by simp
  have b: "''west'' \<notin> set (getAvailableClusters east_only)"
    by (simp add: getAvailableClusters_def east_only_def)
  have c: "join '', '' (getAvailableClusters east_only) = ''east''"
    by (simp add: getAvailableClusters_def east_only_def)
  show ?thesis using getClient_unknown_name [OF a b] a b c by simp
qed

subsection \<open>Configuration resolution\<close>

text \<open>
  Claim C5, as stated: resolution tries the named single-cluster variables, then the bulk
  declaration, then the legacy variables, and the first source that yields any cluster
  definitions wins. \<^verbatim>\<open>createConfigFromEnv\<close> returns whatever a parseable bulk declaration
  holds, also when it holds no cluster definition at all: with the declaration \<^verbatim>\<open>{}\<close>
  and a legacy endpoint both set, the legacy rule would yield the cluster \<^verbatim>\<open>default\<close>,
  but the result is the empty cluster map.
\<close>

theorem empty_bulk_declaration_wins:
  "env_truthy empty_bulk_env ''OPENSEARCH_CLUSTER_NAME'' = None
   \<and> env_truthy empty_bulk_env ''OPENSEARCH_CLUSTERS'' = Some ''{}''
   \<and> JSON_parse example_world ''{}'' = Some (JObj [])
   \<and> has_endpoint empty_bulk_env
   \<and> legacy_or_empty example_world empty_bulk_env
       = JObj [(''clusters'', JObj [(''default'', cluster_from_env example_world empty_bulk_env)])]
   \<and> createConfigFromEnv example_world empty_bulk_env = (JObj [(''clusters'', JObj [])], [])"
  by (simp add: createConfigFromEnv_def env_truthy_def empty_bulk_env_def has_endpoint_def
      env_value_def js_or_def example_world_def legacy_or_empty_def bulk_text_def broken_text_def)

text \<open>
  Claim C5, as amended: resolution tries the sources in fixed order and the first source
  that is present wins, later sources never being merged in: the named single-cluster
  variables when a cluster name and an endpoint are set; otherwise the bulk declaration
  when it is set and parses, whatever it holds (also no cluster definition); otherwise
  the legacy rule. In particular, with a parseable bulk declaration and the legacy
  endpoint both set (and no cluster name), the result is exactly the bulk declaration
  and the legacy variables are ignored. The cluster name is taken not to be \<^verbatim>\<open>__proto__\<close>,
  a key under which the assignment in the named branch adds no entry.
\<close>

theorem config_source_precedence:
  assumes "env_truthy env ''OPENSEARCH_CLUSTER_NAME'' \<noteq> Some ''__proto__''"
  shows "fst (createConfigFromEnv w env) =
     JObj [(''clusters'',
            (case first_present [named_source w env, bulk_source w env, legacy_source w env] of
               Some cs \<Rightarrow> cs
             | None \<Rightarrow> JObj []))]
   \<and> (env_truthy env ''OPENSEARCH_CLUSTER_NAME'' = None \<and> has_endpoint env
        \<and> env_truthy env ''OPENSEARCH_CLUSTERS'' = Some s \<and> JSON_parse w s = Some v \<longrightarrow>
      createConfigFromEnv w env = (JObj [(''clusters'', v)], []))"
proof -
  have entry: "assign_to_empty n x = JObj [(n, x)]"
    if "env_truthy env ''OPENSEARCH_CLUSTER_NAME'' = Some n" for n x
    using that assms by (auto simp: assign_to_empty_def)
  have named: "fst (createConfigFromEnv w env) = JObj [(''clusters'', cs)]"
    if "named_source w env = Some cs" for cs
    using that
    by (auto simp: createConfigFromEnv_def named_source_def entry split: option.splits if_splits)
  have bulk: "fst (createConfigFromEnv w env) = JObj [(''clusters'', cs)]"
    if "named_source w env = None" and "bulk_source w env = Some cs" for cs
    using that
    by (auto simp: createConfigFromEnv_def named_source_def bulk_source_def
        split: option.splits if_splits bool.splits)
  have rest: "fst (createConfigFromEnv w env) = legacy_or_empty w env"
    if "named_source w env = None" and "bulk_source w env = None"
    using that
    by (auto simp: createConfigFromEnv_def named_source_def bulk_source_def
        split: option.splits if_splits bool.splits)
  have legacy: "legacy_or_empty w env =
                  JObj [(''clusters'', (case legacy_source w env of Some cs \<Rightarrow> cs | None \<Rightarrow> JObj []))]"
    by (simp add: legacy_or_empty_def legacy_source_def)
  have first: "fst (createConfigFromEnv w env) =
     JObj [(''clusters'',
            (case first_present [named_source w env, bulk_source w env, legacy_source w env] of
               Some cs \<Rightarrow> cs
             | None \<Rightarrow> JObj []))]"
  proof (cases "named_source w env")
    case (Some cs)
    then show ?thesis by (simp add: named)
  next
    case None
    show ?thesis
    proof (cases "bulk_source w env")
      case (Some cs)
      with None show ?thesis by (simp add: bulk)
    next
      case bnone: None
      with None show ?thesis
        by (cases "legacy_source w env") (simp_all add: rest legacy)
    qed
  qed
  have particular: "env_truthy env ''OPENSEARCH_CLUSTER_NAME'' = None \<and> has_endpoint env
        \<and> env_truthy env ''OPENSEARCH_CLUSTERS'' = Some s \<and> JSON_parse w s = Some v \<longrightarrow>
      createConfigFromEnv w env = (JObj [(''clusters'', v)], [])"
    by (simp add: createConfigFromEnv_def)
  show ?thesis using first particular by blast
qed

theorem config_source_precedence_witness:
  "env_truthy bulk_and_legacy_env ''OPENSEARCH_CLUSTER_NAME'' \<noteq> Some ''__proto__''
   \<and> env_truthy bulk_and_legacy_env ''OPENSEARCH_CLUSTER_NAME'' = None
   \<and> has_endpoint bulk_and_legacy_env
   \<and> env_truthy bulk_and_legacy_env ''OPENSEARCH_CLUSTERS'' = Some bulk_text
   \<and> JSON_parse example_world bulk_text = Some bulk_value
   \<and> legacy_source example_world bulk_and_legacy_env
       = Some (JObj [(''default'', cluster_from_env example_world bulk_and_legacy_env)])
   \<and> createConfigFromEnv example_world bulk_and_legacy_env = (JObj [(''clusters'', bulk_value)], [])"
proof -
  have a: "env_truthy bulk_and_legacy_env ''OPENSEARCH_CLUSTER_NAME'' = None"
    by (simp add: env_truthy_def bulk_and_legacy_env_def)
  have a': "env_truthy bulk_and_legacy_env ''OPENSEARCH_CLUSTER_NAME'' \<noteq> Some ''__proto__''"
    by (simp add: a)
  have b: "has_endpoint bulk_and_legacy_env"
    by (simp add: has_endpoint_def env_value_def js_or_def bulk_and_legacy_env_def)
  have c: "env_truthy bulk_and_legacy_env ''OPENSEARCH_CLUSTERS'' = Some bulk_text"
    by (simp add: env_truthy_def bulk_and_legacy_env_def bulk_text_def)
  have d: "JSON_parse example_world bulk_text = Some bulk_value"
    by (simp add: example_world_def)
  have e: "legacy_source example_world bulk_and_legacy_env
       = Some (JObj [(''default'', cluster_from_env example_world bulk_and_legacy_env)])"
    by (simp add: legacy_source_def b)
  show ?thesis
    using config_source_precedence [OF a', of example_world bulk_text bulk_value]
      a b c d e by simp
qed




text \<open>
  Claim C6, as stated: a candidate cluster entry that fails validation is dropped with a
  warning and the valid entries are kept; resolution fails only when no valid entry
  remains. \<^verbatim>\<open>validateConfig\<close> parses the whole configuration with one schema: the entry
  \<^verbatim>\<open>west\<close> below has no endpoint, and the valid entry \<^verbatim>\<open>east\<close> is lost with it, as
  registry construction fails before any probe.
\<close>

theorem invalid_entry_fails_resolution:
  "OpenSearchClusterConfigSchema example_world (JObj [(''node'', JStr ''http://east:9200'')])
     = Some (endpoint_config ''http://east:9200'')
   \<and> OpenSearchClusterConfigSchema example_world (JObj []) = None
   \<and> createConfigFromEnv example_world broken_env
       = (JObj [(''clusters'', JObj [(''east'', JObj [(''node'', JStr ''http://east:9200'')]),
                                     (''west'', JObj [])])], [])
   \<and> validateConfig example_world
         (JObj [(''clusters'', JObj [(''east'', JObj [(''node'', JStr ''http://east:9200'')]),
                                     (''west'', JObj [])])])
       = Inl (''Invalid OpenSearch configuration:'' @ [CHR 0x0A] @ ''clusters.west.node: Required'')
   \<and> initializeOpenSearch example_world broken_env new_OpenSearchMCPServer
       = (Inl (McpError InternalError
                 (''Failed to initialize OpenSearch: Invalid OpenSearch configuration:''
                    @ [CHR 0x0A] @ ''clusters.west.node: Required'')),
          new_OpenSearchMCPServer, [])"
proof -
  let ?cfg = "JObj [(''clusters'', JObj [(''east'', JObj [(''node'', JStr ''http://east:9200'')]),
                                       (''west'', JObj [])])]"
  have c: "createConfigFromEnv example_world broken_env = (?cfg, [])"
    by (simp add: createConfigFromEnv_def env_truthy_def broken_env_def has_endpoint_def
        env_value_def js_or_def example_world_def broken_value_def bulk_text_def broken_text_def)
  have z: "OpenSearchConfigSchema example_world ?cfg = None"
    by (simp add: OpenSearchConfigSchema_def config_shape_def get_prop_def
        z_record_all_or_nothing east_entry_valid empty_entry_invalid)
  have v: "validateConfig example_world ?cfg
       = Inl (''Invalid OpenSearch configuration:'' @ [CHR 0x0A] @ ''clusters.west.node: Required'')"
    unfolding validateConfig_def z legacy_schema_rejects_clusters_object
    by (simp add: example_world_def)
  have i: "initializeOpenSearch example_world broken_env new_OpenSearchMCPServer
       = (Inl (McpError InternalError
                 (''Failed to initialize OpenSearch: Invalid OpenSearch configuration:''
                    @ [CHR 0x0A] @ ''clusters.west.node: Required'')),
          new_OpenSearchMCPServer, [])"
    unfolding initializeOpenSearch_def c
    by (simp add: v new_OpenSearchMCPServer_def initialize_failed_def)
  show ?thesis
    using east_entry_valid empty_entry_invalid c v i by blast
qed

text \<open>
  Claim C6, as amended: validation of a resolved configuration is all or nothing. When
  every candidate cluster entry satisfies the cluster schema, the entries are kept, in
  order (also when there is none: an empty configuration is valid), but for an entry
  under the key \<^verbatim>\<open>__proto__\<close>, which is checked like the others and left out of the result;
  when one entry fails, validation fails as a whole with an invalid-configuration error
  and no entry is kept.
\<close>

theorem validateConfig_all_or_nothing:
  "validateConfig w (JObj [(''clusters'', JObj kvs)]) =
     (if \<forall>(k, v) \<in> set kvs. OpenSearchClusterConfigSchema w v \<noteq> None
      then Inr \<lparr>clusters = map (\<lambda>(k, v). (k, the (OpenSearchClusterConfigSchema w v)))
                               (filter (\<lambda>(k, v). k \<noteq> ''__proto__'') kvs)\<rparr>
      else Inl (''Invalid OpenSearch configuration:'' @ [CHR 0x0A]
                  @ zod_issues w (JObj [(''clusters'', JObj kvs)])))"
proof -
  have m: "OpenSearchConfigSchema w (JObj [(''clusters'', JObj kvs)])
             = map_option (\<lambda>cs. \<lparr>clusters = cs\<rparr>)
                 (z_record (OpenSearchClusterConfigSchema w) (JObj kvs))"
    by (simp add: OpenSearchConfigSchema_def config_shape_def get_prop_def)
  show ?thesis
    unfolding validateConfig_def legacy_schema_rejects_clusters_object m z_record_all_or_nothing
    by simp
qed

theorem validateConfig_all_or_nothing_witness:
  "validateConfig example_world (JObj [(''clusters'', bulk_value)]) = Inr bulk_config
   \<and> validateConfig example_world (JObj [(''clusters'', JObj [])]) = Inr \<lparr>clusters = []\<rparr>
   \<and> validateConfig example_world (JObj [(''clusters'', proto_value)])
       = Inr \<lparr>clusters = [(''east'', endpoint_config ''http://east:9200'')]\<rparr>"
proof -
  have a: "validateConfig example_world (JObj [(''clusters'', bulk_value)]) = Inr bulk_config"
    unfolding bulk_value_def
    by (subst validateConfig_all_or_nothing)
       (simp add: east_entry_valid west_entry_valid bulk_config_def)
  have b: "validateConfig example_world (JObj [(''clusters'', JObj [])]) = Inr \<lparr>clusters = []\<rparr>"
    using validateConfig_all_or_nothing [of example_world "[]"] by simp
  have c: "validateConfig example_world (JObj [(''clusters'', proto_value)])
       = Inr \<lparr>clusters = [(''east'', endpoint_config ''http://east:9200'')]\<rparr>"
    unfolding proto_value_def
    by (subst validateConfig_all_or_nothing)
       (simp add: east_entry_valid west_entry_valid)
  show ?thesis using a b c by blast
qed

subsection \<open>Dispatch\<close>

text \<open>
  Claim C2, as stated: dispatching an operation name that is not in the catalog returns a
  method-not-found error without contacting any backend and without touching the
  registry. The handler initialises the registry before it looks at the name. On a server
  that has not initialised yet, the unknown name \<^verbatim>\<open>opensearch_reindex\<close> makes it probe
  every configured cluster; where no cluster answers, the error is the failed
  initialisation, and where one answers the registry is filled before the
  method-not-found error is raised.
\<close>

theorem unknown_tool_probes_first:
  "''opensearch_reindex'' \<notin> set (map fst tool_catalog)
   \<and> CallTool example_world west_env new_OpenSearchMCPServer ''opensearch_reindex'' (Some [])
       = (Inl (McpError InternalError
                 ''Failed to initialize OpenSearch: Failed to connect to any OpenSearch cluster''),
          fst (snd (initializeOpenSearch example_world west_env new_OpenSearchMCPServer)),
          [Pinged ''default'', Warned (connect_warning ''default'')])
   \<and> CallTool example_world bulk_env new_OpenSearchMCPServer ''opensearch_reindex'' (Some [])
       = (Inl (McpError MethodNotFound ''Unknown tool: opensearch_reindex''),
          east_only,
          [Pinged ''east'', Pinged ''west'', Warned (connect_warning ''west'')])
   \<and> east_only \<noteq> new_OpenSearchMCPServer"
proof -
  have a: "''opensearch_reindex'' \<notin> set (map fst tool_catalog)"
    by (simp add: tool_catalog_def)
  have i1: "initializeOpenSearch example_world west_env new_OpenSearchMCPServer
      = (Inl (initialize_failed no_cluster_message),
         fst (snd (initializeOpenSearch example_world west_env new_OpenSearchMCPServer)),
         [Pinged ''default'', Warned (connect_warning ''default'')])"
    by (simp add: initializeOpenSearch_def new_OpenSearchMCPServer_def createConfigFromEnv_def
      env_truthy_def west_env_def has_endpoint_def env_value_def js_or_def example_world_def
      validateConfig_def schema_defs legacy_or_empty_def
      cluster_from_env_def new_OpenSearchClient_def wants_aws_def ca_warnings_def)
  have i2: "initializeOpenSearch example_world bulk_env new_OpenSearchMCPServer
      = (Inr (), east_only, [Pinged ''east'', Pinged ''west'', Warned (connect_warning ''west'')])"
    by (simp add: initializeOpenSearch_def new_OpenSearchMCPServer_def createConfigFromEnv_def
      env_truthy_def bulk_env_def has_endpoint_def env_value_def js_or_def example_world_def
      validateConfig_def bulk_value_def schema_defs east_only_def
      bulk_config_def east_client_def endpoint_config_def new_OpenSearchClient_def
      wants_aws_def ca_warnings_def bulk_text_def)
  have s: "switch_tool example_world east_only ''opensearch_reindex'' (Some [])
      = (Inl (Mcp (unknown_tool ''opensearch_reindex'')), [])"
    by (rule switch_unknown [OF a])
  have c1: "CallTool example_world west_env new_OpenSearchMCPServer ''opensearch_reindex'' (Some [])
       = (Inl (McpError InternalError
                 ''Failed to initialize OpenSearch: Failed to connect to any OpenSearch cluster''),
          fst (snd (initializeOpenSearch example_world west_env new_OpenSearchMCPServer)),
          [Pinged ''default'', Warned (connect_warning ''default'')])"
    unfolding CallTool_def by (subst i1) (simp add: initialize_failed_def no_cluster_message_def)
  have c2: "CallTool example_world bulk_env new_OpenSearchMCPServer ''opensearch_reindex'' (Some [])
       = (Inl (McpError MethodNotFound ''Unknown tool: opensearch_reindex''),
          east_only,
          [Pinged ''east'', Pinged ''west'', Warned (connect_warning ''west'')])"
    unfolding CallTool_def i2 by (simp add: s unknown_tool_def) (simp add: east_only_def)
  have d: "east_only \<noteq> new_OpenSearchMCPServer"
    by (simp add: east_only_def new_OpenSearchMCPServer_def)
  show ?thesis using a c1 c2 d by blast
qed

text \<open>
  Claim C2, as amended: for every operation name not in the catalog and every argument
  object, dispatch on a server whose registry is initialised returns the method-not-found
  error, contacts no backend and leaves the registry as it is. On a server whose registry
  is empty, dispatch first runs registry construction, which probes the configured
  clusters: it returns the method-not-found error when construction succeeds and the
  error of construction otherwise.
\<close>

theorem unknown_tool_dispatch:
  assumes "name \<notin> set (map fst tool_catalog)"
  shows "(opensearchClients this \<noteq> [] \<longrightarrow>
            CallTool w env this name arguments
              = (Inl (McpError MethodNotFound (''Unknown tool: '' @ name)), this, []))
       \<and> CallTool w env this name arguments
           = (case initializeOpenSearch w env this of
                (Inl e, this', evs) \<Rightarrow> (Inl e, this', evs)
              | (Inr u, this', evs) \<Rightarrow>
                  (Inl (McpError MethodNotFound (''Unknown tool: '' @ name)), this', evs))"
proof -
  have general: "CallTool w env this name arguments
           = (case initializeOpenSearch w env this of
                (Inl e, this', evs) \<Rightarrow> (Inl e, this', evs)
              | (Inr u, this', evs) \<Rightarrow>
                  (Inl (McpError MethodNotFound (''Unknown tool: '' @ name)), this', evs))"
  proof (cases "initializeOpenSearch w env this")
    case (fields r this' evs)
    show ?thesis
    proof (cases r)
      case (Inl e)
      then show ?thesis by (simp add: CallTool_def fields)
    next
      case (Inr u)
      with fields have "opensearchClients this' \<noteq> []"
        using initialize_success_nonempty by blast
      then show ?thesis
        by (simp add: CallTool_def fields Inr switch_unknown [OF assms] unknown_tool_def)
    qed
  qed
  show ?thesis
  proof (intro conjI impI)
    assume "opensearchClients this \<noteq> []"
    then show "CallTool w env this name arguments
              = (Inl (McpError MethodNotFound (''Unknown tool: '' @ name)), this, [])"
      by (simp add: general initialize_idle)
  qed (rule general)
qed

theorem unknown_tool_dispatch_witness:
  "''opensearch_reindex'' \<notin> set (map fst tool_catalog)
   \<and> opensearchClients east_only \<noteq> []
   \<and> CallTool example_world bulk_env east_only ''opensearch_reindex'' (Some [])
       = (Inl (McpError MethodNotFound ''Unknown tool: opensearch_reindex''), east_only, [])"
proof -
  have a: "''opensearch_reindex'' \<notin> set (map fst tool_catalog)"
    by (simp add: tool_catalog_def)
  have b: "opensearchClients east_only \<noteq> []" by (simp add: east_only_def)
  show ?thesis
    using unknown_tool_dispatch [OF a, of east_only example_world bulk_env "Some []"] a b
    by simp
qed




text \<open>
  Claim C9 says that every operation in the catalog, the security operations included,
  dispatches to a method that \<^verbatim>\<open>OpenSearchClient\<close> has. The handler of
  \<^verbatim>\<open>opensearch_create_user\<close> calls \<^verbatim>\<open>client.createUser\<close>, which the class does not define:
  the call throws and the request ends in an internal error, no client method having
  run.
\<close>

theorem create_user_not_a_function:
  "map_option method_name (map_of client_tools ''opensearch_create_user'') = Some ''createUser''
   \<and> ''createUser'' \<notin> set OpenSearchClient_methods
   \<and> CallTool example_world bulk_env east_only ''opensearch_create_user''
         (Some [(''username'', JStr ''alice''), (''password'', JStr ''secret'')])
       = (Inl (McpError InternalError
                 ''Tool opensearch_create_user failed: client.createUser is not a function''),
          east_only, [])"
proof -
  have m: "map_option method_name (map_of client_tools ''opensearch_create_user'') = Some ''createUser''"
    by (simp add: client_tools_def)
  have n: "''createUser'' \<notin> set OpenSearchClient_methods"
    by (simp add: OpenSearchClient_methods_def)
  have i: "initializeOpenSearch example_world bulk_env east_only = (Inr (), east_only, [])"
    by (simp add: initializeOpenSearch_def east_only_def)
  have s: "switch_tool example_world east_only ''opensearch_create_user''
             (Some [(''username'', JStr ''alice''), (''password'', JStr ''secret'')])
             = (Inl (JsError ''client.createUser is not a function''), [])"
    by (simp add: switch_tool_def client_tools_def handle_client_tool_def getClient_def
        get_prop_def js_or_def map_get_def east_only_def OpenSearchClient_methods_def)
  have c: "CallTool example_world bulk_env east_only ''opensearch_create_user''
         (Some [(''username'', JStr ''alice''), (''password'', JStr ''secret'')])
       = (Inl (McpError InternalError
                 ''Tool opensearch_create_user failed: client.createUser is not a function''),
          east_only, [])"
    unfolding CallTool_def i by (simp add: s tool_failed_def) (simp add: east_only_def)
  show ?thesis using m n c by blast
qed

subsection \<open>Index prefix\<close>

text \<open>
  Claim C10. Index-prefix application is idempotent: for every configured non-empty index
  prefix \<open>p\<close> and every index name \<open>s\<close>, applying the prefix transformation twice gives the
  same string as applying it once, and the result always starts with \<open>p\<close>.
\<close>

theorem applyIndexPrefix_idempotent:
  assumes "indexPrefix (config this) = Some p" and "p \<noteq> []"
  shows "applyIndexPrefix this (applyIndexPrefix this s) = applyIndexPrefix this s
         \<and> prefix p (applyIndexPrefix this s)"
  using assms by (simp add: applyIndexPrefix_def)

theorem applyIndexPrefix_idempotent_witness:
  "indexPrefix (config logs_client) = Some ''logs-'' \<and> ''logs-'' \<noteq> []
   \<and> applyIndexPrefix logs_client (applyIndexPrefix logs_client ''app'')
       = applyIndexPrefix logs_client ''app''
   \<and> prefix ''logs-'' (applyIndexPrefix logs_client ''app'')
   \<and> applyIndexPrefix logs_client ''app'' = ''logs-app''"
proof -
  have p: "indexPrefix (config logs_client) = Some ''logs-''"
    by (simp add: logs_client_def new_OpenSearchClient_def endpoint_config_def)
  have e: "applyIndexPrefix logs_client ''app'' = ''logs-app''"
    by (simp add: applyIndexPrefix_def p)
  show ?thesis
    using applyIndexPrefix_idempotent [OF p, of "''app''"] p e by simp
qed


end
